theory Spec2Isabelle
  imports Main "HOL-Library.Word" "HOL-Library.Char_ord" "HOL-Library.List_Lexorder"
begin

section \<open>The service client of services/client.go\<close>

text \<open>
  A shallow embedding of \<^verbatim>\<open>services/client.go\<close>: the base client, its URL builders,
  the request pipeline (\<^verbatim>\<open>NewRequest\<close>, \<^verbatim>\<open>Do\<close>, \<^verbatim>\<open>DoRequest\<close>, \<^verbatim>\<open>makeFormRequest\<close>)
  and the constructor \<^verbatim>\<open>NewClient\<close>. Go strings are byte strings (\<open>string\<close>), a Go
  \<^verbatim>\<open>error\<close> is the value \<open>errorString msg\<close>, a function returning \<^verbatim>\<open>(T, error)\<close>
  returns \<open>error + T\<close>, and a nil-able pointer is an \<open>option\<close>.
\<close>

subsection \<open>Errors and strings\<close>

datatype error = errorString string

definition errors_New :: "string \<Rightarrow> error" where
  "errors_New msg = errorString msg"

fun error_Error :: "error \<Rightarrow> string" where
  "error_Error (errorString msg) = msg"

text \<open>\<^verbatim>\<open>strings.HasPrefix(s, prefix)\<close> and \<^verbatim>\<open>strings.Contains(s, substr)\<close>.\<close>

definition HasPrefix :: "string \<Rightarrow> string \<Rightarrow> bool" where
  "HasPrefix s pre = (take (length pre) s = pre)"

fun Contains :: "string \<Rightarrow> string \<Rightarrow> bool" where
  "Contains [] substr = (substr = [])"
| "Contains (c # s) substr = (HasPrefix (c # s) substr \<or> Contains s substr)"

text \<open>
  \<^verbatim>\<open>strings.Join\<close> with a separator, used by the models of \<^verbatim>\<open>path.Join\<close> and
  \<^verbatim>\<open>url.Values.Encode\<close>.
\<close>

fun joinWith :: "string \<Rightarrow> string list \<Rightarrow> string" where
  "joinWith sep [] = []"
| "joinWith sep [x] = x"
| "joinWith sep (x # y # ys) = x @ sep @ joinWith sep (y # ys)"

subsection \<open>The standard library's path.Join\<close>

text \<open>
  \<^verbatim>\<open>path.Join(elem...)\<close> ignores empty elements, joins the others with a slash and
  cleans the result; it is the empty string when every element is empty.
  \<^verbatim>\<open>path.Clean\<close> works on the elements between slashes: empty and \<^verbatim>\<open>.\<close> elements are
  dropped, a \<^verbatim>\<open>..\<close> element removes the element before it when there is one that is not
  itself \<^verbatim>\<open>..\<close>, is dropped at the root of a rooted path, and is kept otherwise.
  The empty result is \<^verbatim>\<open>.\<close>.
\<close>

fun splitSlash :: "string \<Rightarrow> string \<Rightarrow> string list" where
  "splitSlash cur [] = [rev cur]"
| "splitSlash cur (c # s) =
     (if c = CHR ''/'' then rev cur # splitSlash [] s else splitSlash (c # cur) s)"

fun cleanElems :: "bool \<Rightarrow> string list \<Rightarrow> string list \<Rightarrow> string list" where
  "cleanElems rooted out [] = rev out"
| "cleanElems rooted out (e # es) =
     (if e = [] \<or> e = ''.'' then cleanElems rooted out es
      else if e = ''..'' then
        (case out of
           t # ts \<Rightarrow>
             if t \<noteq> ''..'' then cleanElems rooted ts es
             else cleanElems rooted (e # out) es
         | [] \<Rightarrow>
             if rooted then cleanElems rooted [] es
             else cleanElems rooted [e] es)
      else cleanElems rooted (e # out) es)"

definition path_Clean :: "string \<Rightarrow> string" where
  "path_Clean p =
     (if p = [] then ''.''
      else
        let rooted = (hd p = CHR ''/'');
            r = joinWith ''/'' (cleanElems rooted [] (splitSlash [] p))
        in if rooted then ''/'' @ r
           else if r = [] then ''.''
           else r)"

definition path_Join :: "string list \<Rightarrow> string" where
  "path_Join elem =
     (let nonEmpty = filter (\<lambda>e. e \<noteq> []) elem
      in if nonEmpty = [] then [] else path_Clean (joinWith ''/'' nonEmpty))"

subsection \<open>The standard library's url.Values.Encode\<close>

text \<open>
  \<^verbatim>\<open>url.Values\<close> is a \<^verbatim>\<open>map[string][]string\<close>, here the list of its entries (one per
  key); a nil map is \<open>None\<close>. \<^verbatim>\<open>Encode\<close> writes \<^verbatim>\<open>key=value\<close> pairs joined by
  \<^verbatim>\<open>&\<close>, the keys in sorted order, both sides query-escaped.
\<close>

type_synonym url_Values = "(string \<times> string list) list"

definition upperhex :: string where
  "upperhex = ''0123456789ABCDEF''"

definition unreserved :: "char \<Rightarrow> bool" where
  "unreserved c =
     (c \<in> set ''abcdefghijklmnopqrstuvwxyzABCDEFGHIJKLMNOPQRSTUVWXYZ0123456789-_.~'')"

definition escapeByte :: "char \<Rightarrow> string" where
  "escapeByte c =
     (if unreserved c then [c]
      else if c = CHR '' '' then ''+''
      else [CHR ''%'', upperhex ! (of_char c div 16), upperhex ! (of_char c mod 16)])"

definition QueryEscape :: "string \<Rightarrow> string" where
  "QueryEscape s = concat (map escapeByte s)"

definition Encode :: "url_Values \<Rightarrow> string" where
  "Encode v =
     joinWith ''&''
       (concat (map (\<lambda>(k, vs). map (\<lambda>x. QueryEscape k @ ''='' @ QueryEscape x) vs)
                    (sort_key fst v)))"

subsection \<open>Tokens, retrievers, handlers and the client\<close>

text \<open>
  Modelled from the spec: the token snapshot \<^verbatim>\<open>idp.Context\<close>, a type of package
  \<^verbatim>\<open>idp\<close>, is the value of an access token, an issuance epoch and a lifetime in
  seconds. The field names are those the client reads: \<^verbatim>\<open>AccessToken\<close>,
  \<^verbatim>\<open>StartTime\<close> (an \<^verbatim>\<open>int64\<close> of seconds) and \<^verbatim>\<open>ExpiresIn\<close>, held here as the
  64-bit value that the conversion \<^verbatim>\<open>int64(...)\<close> in \<^verbatim>\<open>DoRequest\<close> yields.
\<close>

record Context =
  AccessToken :: string
  StartTime :: "64 word"
  ExpiresIn :: "64 word"

text \<open>
  An \<^verbatim>\<open>idp.TokenRetriever\<close> is an interface value: either the no-op retriever that
  \<^verbatim>\<open>NewClient\<close> builds around a static token, or a retriever supplied by the caller,
  named here by a number and run by the environment.
\<close>

datatype TokenRetriever =
    NoOpTokenRetriever Context
  | ExternalRetriever nat

text \<open>\<^verbatim>\<open>http.Response\<close>, with the status code that \<^verbatim>\<open>Do\<close> reads.\<close>

record Response =
  StatusCode :: int
  ResponseBody :: string

text \<open>
  Modelled from the spec: the configurable retry policy \<^verbatim>\<open>ConfigurableRetryConfig\<close>,
  declared in another file of the package, is parameterised by a maximum retry count, a
  wait interval and a predicate that decides whether an outcome (a response, an error)
  is retried. The field names are those \<^verbatim>\<open>NewClient\<close> copies.
\<close>

record ConfigurableRetryConfig =
  RetryNum :: nat
  Interval :: nat
  ShouldRetryFn :: "Response option \<Rightarrow> error option \<Rightarrow> bool"

text \<open>
  A \<^verbatim>\<open>ResponseHandler\<close> is an interface value as well: one of the two retry handlers
  that \<^verbatim>\<open>NewClient\<close> installs (the default one has an empty configuration, the
  configurable one carries its configuration), or a handler supplied by the caller,
  named by a number.
\<close>

datatype ResponseHandler =
    DefaultRetryResponseHandler
  | ConfigurableRetryResponseHandler ConfigurableRetryConfig
  | CallerHandler nat

text \<open>
  \<^verbatim>\<open>http.Client\<close>: the timeout (a \<^verbatim>\<open>time.Duration\<close>, in nanoseconds) and the
  optional \<^verbatim>\<open>RoundTripper\<close>, an interface value named by a number.
\<close>

record http_Client =
  Timeout :: int
  Transport :: "nat option"

record BaseClient =
  defaultTenant :: string
  rootDomain :: string
  overrideHost :: string
  scheme :: string
  tokenContext :: "Context option"
  httpClient :: http_Client
  responseHandlers :: "ResponseHandler list"
  tokenRetriever :: TokenRetriever
  tokenExpireWindow :: int
  clientVersion :: string
  tenantScoped :: bool
  region :: string

subsection \<open>The URL builders\<close>

record URL =
  Scheme :: string
  Host :: string
  Path :: string
  RawQuery :: string

text \<open>\<^verbatim>\<open>BuildHost\<close> (lines 188 to 203).\<close>

definition BuildHost :: "BaseClient \<Rightarrow> string \<Rightarrow> string \<Rightarrow> string" where
  "BuildHost c serviceCluster appendToHost =
     (let appendToHost = (if appendToHost \<noteq> [] then appendToHost @ ''.'' else appendToHost)
      in if overrideHost c \<noteq> [] then overrideHost c
         else if serviceCluster \<noteq> [] then appendToHost @ serviceCluster @ ''.'' @ rootDomain c
         else appendToHost @ ''api.'' @ rootDomain c)"

text \<open>\<^verbatim>\<open>BuildURLWithTenant\<close> (lines 211 to 236) and \<^verbatim>\<open>BuildURL\<close> (lines 206 to 208).\<close>

definition BuildURLWithTenant ::
  "BaseClient \<Rightarrow> string \<Rightarrow> bool \<Rightarrow> string \<Rightarrow> url_Values option \<Rightarrow> string \<Rightarrow> string list
    \<Rightarrow> error + URL" where
  "BuildURLWithTenant c tenant tenantScoped' region' queryValues serviceCluster urlPathParts =
     (if length tenant = 0 then Inl (errors_New ''a non-empty tenant must be specified'')
      else
        let queryValues = (case queryValues of None \<Rightarrow> [] | Some v \<Rightarrow> v);
            pathWithTenant = path_Join (tenant # urlPathParts);
            appendToHost =
              (if tenantScoped' = True \<and> region' \<noteq> [] \<and> Contains pathWithTenant ''system''
               then region'
               else if tenantScoped' = True \<and> \<not> Contains pathWithTenant ''system''
               then tenant
               else []);
            host = BuildHost c serviceCluster appendToHost
        in Inr \<lparr>Scheme = scheme c, Host = host, Path = pathWithTenant,
                RawQuery = Encode queryValues\<rparr>)"

definition BuildURL :: "BaseClient \<Rightarrow> url_Values option \<Rightarrow> string \<Rightarrow> string list \<Rightarrow> error + URL" where
  "BuildURL c queryValues serviceCluster urlPathParts =
     BuildURLWithTenant c (defaultTenant c) (tenantScoped c) (region c)
       queryValues serviceCluster urlPathParts"

text \<open>
  \<^verbatim>\<open>BuildURLFromPathParams\<close> (lines 239 to 277). Parsing and executing the template are
  the standard library's \<^verbatim>\<open>text/template\<close>; the model takes them as the function
  \<open>render\<close>, which returns the rendered text or the error of \<^verbatim>\<open>Parse\<close> or
  \<^verbatim>\<open>Execute\<close>.
\<close>

definition BuildURLFromPathParams ::
  "(string \<Rightarrow> 'p \<Rightarrow> error + string) \<Rightarrow> BaseClient \<Rightarrow> url_Values option \<Rightarrow> string
    \<Rightarrow> string \<Rightarrow> 'p \<Rightarrow> error + URL" where
  "BuildURLFromPathParams render c queryValues serviceCluster templ pathParams =
     (case render templ pathParams of
        Inl err \<Rightarrow> Inl err
      | Inr buf \<Rightarrow>
          let path = (if \<not> HasPrefix buf ''/system/'' then ''/'' @ defaultTenant c @ buf else buf);
              queryValues = (case queryValues of None \<Rightarrow> [] | Some v \<Rightarrow> v)
          in if tenantScoped c = True \<and> region c = [] \<and> HasPrefix path ''/system/''
             then Inl (errors_New ''region cannot be empty'')
             else
               let appendToHost =
                     (if tenantScoped c = True \<and> region c \<noteq> [] \<and> HasPrefix path ''/system/''
                      then ''region-'' @ region c
                      else if tenantScoped c = True \<and> \<not> HasPrefix path ''/system/''
                      then defaultTenant c
                      else []);
                   host = BuildHost c serviceCluster appendToHost
               in Inr \<lparr>Scheme = scheme c, Host = host, Path = path,
                       RawQuery = Encode queryValues\<rparr>)"

subsection \<open>Requests and their headers\<close>

text \<open>
  \<^verbatim>\<open>http.Header\<close> maps a canonical key to its values. \<^verbatim>\<open>Header.Set\<close> canonicalises
  the key (\<^verbatim>\<open>textproto.CanonicalMIMEHeaderKey\<close>: when every byte is a token byte, the
  first letter and every letter after a hyphen are made upper case and the others lower
  case; any other key is left as it is) and replaces the values by the one given.
\<close>

definition validHeaderFieldByte :: "char \<Rightarrow> bool" where
  "validHeaderFieldByte c =
     (c \<in> set (''abcdefghijklmnopqrstuvwxyzABCDEFGHIJKLMNOPQRSTUVWXYZ0123456789''
                @ ''!#$%&*+-.^_|~'' @ [CHR 0x27, CHR 0x60]))"

definition upperByte :: "char \<Rightarrow> char" where
  "upperByte c =
     (case map_of (zip ''abcdefghijklmnopqrstuvwxyz'' ''ABCDEFGHIJKLMNOPQRSTUVWXYZ'') c of
        Some u \<Rightarrow> u | None \<Rightarrow> c)"

definition lowerByte :: "char \<Rightarrow> char" where
  "lowerByte c =
     (case map_of (zip ''ABCDEFGHIJKLMNOPQRSTUVWXYZ'' ''abcdefghijklmnopqrstuvwxyz'') c of
        Some l \<Rightarrow> l | None \<Rightarrow> c)"

fun canonicalise :: "bool \<Rightarrow> string \<Rightarrow> string" where
  "canonicalise upper [] = []"
| "canonicalise upper (c # s) =
     (let c' = (if upper then upperByte c else lowerByte c)
      in c' # canonicalise (c' = CHR ''-'') s)"

definition CanonicalMIMEHeaderKey :: "string \<Rightarrow> string" where
  "CanonicalMIMEHeaderKey s =
     (if list_all validHeaderFieldByte s then canonicalise True s else s)"

type_synonym http_Header = "string \<rightharpoonup> string list"

definition Header_Set :: "http_Header \<Rightarrow> string \<Rightarrow> string \<Rightarrow> http_Header" where
  "Header_Set h key v = h(CanonicalMIMEHeaderKey key \<mapsto> [v])"

text \<open>
  \<^verbatim>\<open>http.Request\<close> with the fields the client sets or reads, and the client's
  \<^verbatim>\<open>Request\<close>, which embeds it and adds the two counters. Go's \<^verbatim>\<open>uint\<close> is taken at
  64 bits; the body is the content of the buffer handed to \<^verbatim>\<open>http.NewRequest\<close>. The
  map of a request is the one \<^verbatim>\<open>NewRequest\<close> makes, never nil.
\<close>

record http_Request =
  ReqMethod :: string
  ReqURL :: URL
  Header :: http_Header
  ReqBody :: "string option"

record Request =
  httpRequest :: http_Request
  NumAttempts :: "64 word"
  NumErrorsByType :: "string \<rightharpoonup> 64 word"

text \<open>\<^verbatim>\<open>fmt.Sprintf("%d", n)\<close>: the decimal text of an integer.\<close>

fun decimal :: "nat \<Rightarrow> string" where
  "decimal n =
     (if n < 10 then [''0123456789'' ! n]
      else decimal (n div 10) @ [''0123456789'' ! (n mod 10)])"

declare decimal.simps [simp del]

definition Sprintf_d :: "int \<Rightarrow> string" where
  "Sprintf_d i = (if i < 0 then ''-'' @ decimal (nat (- i)) else decimal (nat i))"

text \<open>\<^verbatim>\<open>GetNumErrorsByResponseCode\<close>, \<^verbatim>\<open>IncrementErrorsByType\<close> and \<^verbatim>\<open>UpdateToken\<close>
  (lines 101 to 122).\<close>

definition GetNumErrorsByResponseCode :: "Request \<Rightarrow> int \<Rightarrow> 64 word" where
  "GetNumErrorsByResponseCode r respCode =
     (let code = Sprintf_d respCode
      in case NumErrorsByType r code of Some val \<Rightarrow> val | None \<Rightarrow> 0)"

definition IncrementErrorsByType :: "Request \<Rightarrow> string \<Rightarrow> Request" where
  "IncrementErrorsByType r errType =
     (case NumErrorsByType r errType of
        Some n \<Rightarrow> r\<lparr>NumErrorsByType := (NumErrorsByType r)(errType \<mapsto> n + 1)\<rparr>
      | None \<Rightarrow> r\<lparr>NumErrorsByType := (NumErrorsByType r)(errType \<mapsto> 1)\<rparr>)"

definition AuthorizationType :: string where
  "AuthorizationType = ''Bearer''"

definition UpdateToken :: "Request \<Rightarrow> string \<Rightarrow> Request" where
  "UpdateToken r accessToken =
     r\<lparr>httpRequest := (httpRequest r)
         \<lparr>Header := Header_Set (Header (httpRequest r)) ''Authorization''
                       (AuthorizationType @ '' '' @ accessToken)\<rparr>\<rparr>"

subsection \<open>Request parameters\<close>

text \<open>
  \<^verbatim>\<open>gdepservices.RequestParams\<close> and \<^verbatim>\<open>gdepservices.FormData\<close> come from another
  module. The body is an \<^verbatim>\<open>interface{}\<close>: nil, a byte slice, form data, a value that
  implements \<^verbatim>\<open>util.MethodMarshaler\<close>, or any other value; the last two are named by a
  number and serialised by the environment. An \<^verbatim>\<open>io.Reader\<close> is the bytes it delivers
  and the error that ends it, if any (none for a clean end of file). The headers are a
  \<^verbatim>\<open>map[string]string\<close>, here the list of its entries (one per key) in the order the
  \<^verbatim>\<open>range\<close> loop visits them, which Go leaves open.
\<close>

datatype Reader = Reader string "error option"

record FormData =
  Key :: string
  Filename :: string
  Stream :: Reader

datatype Body =
    NilBody
  | ByteSlice string
  | FormDataBody FormData
  | MethodMarshalerBody nat
  | OtherBody nat

record RequestParams =
  Method :: string
  URL :: URL
  Headers :: "(string \<times> string) list"
  Body :: Body

text \<open>Indexing a \<^verbatim>\<open>map[string]string\<close>: the empty string for a missing key.\<close>

definition index :: "(string \<times> string) list \<Rightarrow> string \<Rightarrow> string" where
  "index m key = (case map_of m key of Some v \<Rightarrow> v | None \<Rightarrow> [])"

subsection \<open>The world outside the client\<close>

text \<open>
  The state of the collaborators (identity provider, network, random source) has the
  type \<open>'e\<close>. The world pairs it with the trace of what the client did to them: taking
  and releasing the token mutex, calling the token retriever, handing a request to the
  HTTP client.
\<close>

datatype event =
    TokenMuxLock
  | TokenMuxUnlock
  | CallGetTokenContext TokenRetriever
  | CallHttpDo http_Request

record 'e world =
  env :: 'e
  trace :: "event list"

text \<open>
  \<^verbatim>\<open>http.Client.Do\<close> returns a response and no error, or an error (with a response
  only when a redirect check failed); it never returns neither.
\<close>

datatype transport_result =
    Responded Response
  | Failed "Response option" error

fun resultPair :: "transport_result \<Rightarrow> Response option \<times> error option" where
  "resultPair (Responded r) = (Some r, None)"
| "resultPair (Failed r e) = (r, Some e)"

type_synonym 'e handled = "(Response option \<times> error option) \<times> Request \<times> BaseClient \<times> 'e world"

text \<open>
  What the client uses and \<^verbatim>\<open>services/client.go\<close> does not define: the constants \<^verbatim>\<open>UserAgent\<close>
  and \<^verbatim>\<open>Version\<close> (\<^verbatim>\<open>services/client_info.go\<close>); the standard library's validation
  of a method and parsing of a URL in \<^verbatim>\<open>http.NewRequest\<close>, \<^verbatim>\<open>url.URL.String\<close>,
  \<^verbatim>\<open>json.Marshal\<close>, and the random boundary and the escaping of quotes of a multipart
  writer; the method
  \<^verbatim>\<open>MarshalJSONByMethod\<close> of a body; \<^verbatim>\<open>GetTokenContext\<close> of a caller's retriever;
  \<^verbatim>\<open>http.Client.Do\<close>; the methods of the response handlers, where
  \<open>HandleRequestError\<close> is \<open>None\<close> for a handler that does not implement
  \<^verbatim>\<open>ResponseOrErrorHandler\<close>; and \<^verbatim>\<open>util.ParseHTTPStatusCodeInResponse\<close>. A handler
  receives the client and the request and may change both (it may call \<^verbatim>\<open>Do\<close> again).
\<close>

record 'e collaborators =
  UserAgent :: string
  Version :: string
  checkRequest :: "string \<Rightarrow> string \<Rightarrow> error + URL"
  URL_String :: "URL \<Rightarrow> string"
  json_Marshal :: "Body \<Rightarrow> error + string"
  MarshalJSONByMethod :: "nat \<Rightarrow> string \<Rightarrow> error + string"
  randomBoundary :: "'e \<Rightarrow> string \<times> 'e"
  escapeQuotes :: "string \<Rightarrow> string"
  retrieve :: "nat \<Rightarrow> 'e \<Rightarrow> (error + Context option) \<times> 'e"
  http_Client_Do :: "http_Client \<Rightarrow> http_Request \<Rightarrow> 'e \<Rightarrow> transport_result \<times> 'e"
  HandleResponse ::
    "ResponseHandler \<Rightarrow> BaseClient \<Rightarrow> Request \<Rightarrow> Response option \<Rightarrow> 'e world \<Rightarrow> 'e handled"
  HandleRequestError ::
    "ResponseHandler \<Rightarrow> (BaseClient \<Rightarrow> Request \<Rightarrow> error \<Rightarrow> 'e world \<Rightarrow> 'e handled) option"
  ParseHTTPStatusCodeInResponse :: "Response option \<Rightarrow> Response option \<times> error option"

text \<open>
  Modelled from the spec: a token retriever fetches a snapshot or fails. The no-op
  retriever is a type of package \<^verbatim>\<open>idp\<close>; by the comment where \<^verbatim>\<open>NewClient\<close> builds
  it, it just returns the static token, that is the context it holds. A caller's retriever
  is run by the collaborators; it may return a nil context with a nil error.
\<close>

definition GetTokenContext ::
  "'e collaborators \<Rightarrow> TokenRetriever \<Rightarrow> 'e \<Rightarrow> (error + Context option) \<times> 'e" where
  "GetTokenContext x r e =
     (case r of
        NoOpTokenRetriever ctx \<Rightarrow> (Inr (Some ctx), e)
      | ExternalRetriever n \<Rightarrow> retrieve x n e)"

subsection \<open>The request pipeline\<close>

text \<open>
  \<^verbatim>\<open>http.NewRequest\<close>: the standard library checks the method and parses the URL (both
  in \<open>checkRequest\<close>); an empty method means \<^verbatim>\<open>GET\<close>; the new request has no header.
\<close>

definition http_NewRequest ::
  "'e collaborators \<Rightarrow> string \<Rightarrow> string \<Rightarrow> string option \<Rightarrow> error + http_Request" where
  "http_NewRequest x method url body =
     (case checkRequest x method url of
        Inl err \<Rightarrow> Inl err
      | Inr u \<Rightarrow>
          Inr \<lparr>ReqMethod = (if method = [] then ''GET'' else method), ReqURL = u,
               Header = Map.empty, ReqBody = body\<rparr>)"

text \<open>\<^verbatim>\<open>NewRequest\<close> (lines 163 to 186).\<close>

definition NewRequest ::
  "'e collaborators \<Rightarrow> BaseClient \<Rightarrow> string \<Rightarrow> string \<Rightarrow> string option
    \<Rightarrow> (string \<times> string) list \<Rightarrow> error + Request" where
  "NewRequest x c httpMethod url body headers =
     (case http_NewRequest x httpMethod url body of
        Inl err \<Rightarrow> Inl err
      | Inr request \<Rightarrow>
          let h1 =
                (case tokenContext c of
                   Some tc \<Rightarrow>
                     if length (AccessToken tc) > 0
                     then Header_Set (Header request) ''Authorization''
                            (AuthorizationType @ '' '' @ AccessToken tc)
                     else Header request
                 | None \<Rightarrow> Header request);
              httpSplunkClient = UserAgent x @ ''/'' @ Version x;
              httpSplunkClient =
                (if length (clientVersion c) > 0
                 then httpSplunkClient @ '','' @ clientVersion c
                 else httpSplunkClient);
              h2 = Header_Set h1 ''Splunk-Client'' httpSplunkClient;
              h3 = Header_Set h2 ''Content-Type'' ''application/json'';
              h4 = (if length headers \<noteq> 0
                    then fold (\<lambda>(key, v) h. Header_Set h key v) headers h3
                    else h3)
          in Inr \<lparr>httpRequest = request\<lparr>Header := h4\<rparr>, NumAttempts = 0,
                  NumErrorsByType = Map.empty\<rparr>)"

text \<open>
  The loop over the response handlers in \<^verbatim>\<open>Do\<close> (lines 294 to 316). With a request
  error, a handler that implements \<^verbatim>\<open>ResponseOrErrorHandler\<close> is called and the loop
  returns once the error is gone; without one, each handler's \<^verbatim>\<open>HandleResponse\<close> is
  called and the loop returns at the first error.
\<close>

fun handlerLoop ::
  "'e collaborators \<Rightarrow> ResponseHandler list \<Rightarrow> Response option \<times> error option \<Rightarrow> Request
    \<Rightarrow> BaseClient \<Rightarrow> 'e world \<Rightarrow> 'e handled" where
  "handlerLoop x [] (response, err) req c w = ((response, err), req, c, w)"
| "handlerLoop x (hr # hrs) (response, err) req c w =
     (case err of
        Some e \<Rightarrow>
          (case (case HandleRequestError x hr of
                   Some her \<Rightarrow> her c req e w
                 | None \<Rightarrow> ((response, err), req, c, w)) of
             ((response', err'), req', c', w') \<Rightarrow>
               if err' = None then ((response', err'), req', c', w')
               else handlerLoop x hrs (response', err') req' c' w')
      | None \<Rightarrow>
          (case HandleResponse x hr c req response w of
             ((response', err'), req', c', w') \<Rightarrow>
               if err' \<noteq> None then ((response', err'), req', c', w')
               else handlerLoop x hrs (response', err') req' c' w'))"

text \<open>\<^verbatim>\<open>Do\<close> (lines 280 to 317).\<close>

definition Do :: "'e collaborators \<Rightarrow> BaseClient \<Rightarrow> Request \<Rightarrow> 'e world \<Rightarrow> 'e handled" where
  "Do x c req w =
     (let req = req\<lparr>NumAttempts := NumAttempts req + 1\<rparr>;
          (result, e) = http_Client_Do x (httpClient c) (httpRequest req) (env w);
          w = w\<lparr>env := e, trace := trace w @ [CallHttpDo (httpRequest req)]\<rparr>
      in if length (responseHandlers c) = 0 then (resultPair result, req, c, w)
         else
           let req =
                 (case result of
                    Responded response \<Rightarrow>
                      if StatusCode response \<ge> 400
                      then IncrementErrorsByType req (Sprintf_d (StatusCode response))
                      else req
                  | Failed response err \<Rightarrow> req)
           in handlerLoop x (responseHandlers c) (resultPair result) req c w)"

text \<open>
  The multipart writer of \<^verbatim>\<open>mime/multipart\<close>: \<^verbatim>\<open>CreateFormFile\<close> opens the first part
  with the boundary line and the part's two header lines (the field name and the file
  name escaped by the library's \<open>escapeQuotes\<close>), the content follows as it is written,
  and \<^verbatim>\<open>Close\<close> ends the body with the closing boundary line.
\<close>

definition CRLF :: string where
  "CRLF = [CHR 0x0D, CHR 0x0A]"

definition CreateFormFile :: "'e collaborators \<Rightarrow> string \<Rightarrow> string \<Rightarrow> string \<Rightarrow> string" where
  "CreateFormFile x boundary fieldname filename =
     ''--'' @ boundary @ CRLF
     @ ''Content-Disposition: form-data; name='' @ [CHR 0x22] @ escapeQuotes x fieldname
     @ [CHR 0x22] @ ''; filename='' @ [CHR 0x22] @ escapeQuotes x filename @ [CHR 0x22] @ CRLF
     @ ''Content-Type: application/octet-stream'' @ CRLF
     @ CRLF"

definition Writer_Close :: "string \<Rightarrow> string" where
  "Writer_Close boundary = CRLF @ ''--'' @ boundary @ ''--'' @ CRLF"

definition FormDataContentType :: "string \<Rightarrow> string" where
  "FormDataContentType boundary =
     (let b = (if list_ex (\<lambda>c. c \<in> set (''()<>@,;:/[]?= '' @ [CHR 0x5C, CHR 0x22])) boundary
               then [CHR 0x22] @ boundary @ [CHR 0x22]
               else boundary)
      in ''multipart/form-data; boundary='' @ b)"

text \<open>\<^verbatim>\<open>io.Copy\<close> from a reader: the bytes delivered, and the reader's error if any.\<close>

fun io_Copy :: "Reader \<Rightarrow> string \<times> error option" where
  "io_Copy (Reader bs err) = (bs, err)"

text \<open>
  \<^verbatim>\<open>makeFormRequest\<close> (lines 414 to 440). The writer draws its boundary when it is
  created, before the body is inspected; writing into the buffer cannot fail.
\<close>

definition makeFormRequest ::
  "'e collaborators \<Rightarrow> BaseClient \<Rightarrow> RequestParams \<Rightarrow> 'e world \<Rightarrow> (error + Request) \<times> 'e world" where
  "makeFormRequest x c requestParams w =
     (let (boundary, e) = randomBoundary x (env w);
          w = w\<lparr>env := e\<rparr>
      in case Body requestParams of
           FormDataBody forms \<Rightarrow>
             (let part = CreateFormFile x boundary (Key forms) (Filename forms)
              in case io_Copy (Stream forms) of
                   (written, Some err) \<Rightarrow> (Inl err, w)
                 | (written, None) \<Rightarrow>
                     (let body = part @ written @ Writer_Close boundary
                      in case NewRequest x c (Method requestParams)
                                (URL_String x (URL requestParams)) (Some body)
                                (Headers requestParams) of
                           Inl err \<Rightarrow> (Inl err, w)
                         | Inr request \<Rightarrow>
                             (Inr (request\<lparr>httpRequest := (httpRequest request)
                                     \<lparr>Header := Header_Set (Header (httpRequest request))
                                        ''Content-Type'' (FormDataContentType boundary)\<rparr>\<rparr>),
                              w)))
         | _ \<Rightarrow> (Inl (errors_New ''bad request of form data''), w))"

text \<open>
  \<^verbatim>\<open>DoRequest\<close> (lines 352 to 412) in its three steps: renewing the token (lines 355
  to 368), building the request (lines 370 to 405), sending it (lines 407 to 411).
  \<open>now\<close> is what \<^verbatim>\<open>time.Now()\<close> reads, in nanoseconds since the Unix epoch, as is the
  expiry window; \<^verbatim>\<open>Unix()\<close> rounds down to seconds. Reading the token context of a
  client that has none is a nil dereference: the step does not return (\<open>None\<close>).
\<close>

definition UpdateTokenContext :: "BaseClient \<Rightarrow> Context option \<Rightarrow> BaseClient" where
  "UpdateTokenContext c ctx = c\<lparr>tokenContext := ctx\<rparr>"

definition renewToken ::
  "'e collaborators \<Rightarrow> BaseClient \<Rightarrow> int \<Rightarrow> 'e world \<Rightarrow> (error option \<times> BaseClient \<times> 'e world) option" where
  "renewToken x c now w =
     (let curEpoch = (now + tokenExpireWindow c) div 1000000000
      in case tokenContext c of
           None \<Rightarrow> None
         | Some tc \<Rightarrow>
             if curEpoch \<ge> sint (StartTime tc + ExpiresIn tc) then
               (let w = w\<lparr>trace := trace w @ [TokenMuxLock]\<rparr>;
                    (r, e) = GetTokenContext x (tokenRetriever c) (env w);
                    w = w\<lparr>env := e, trace := trace w @ [CallGetTokenContext (tokenRetriever c)]\<rparr>
                in case r of
                     Inl err \<Rightarrow> Some (Some err, c, w\<lparr>trace := trace w @ [TokenMuxUnlock]\<rparr>)
                   | Inr ctx \<Rightarrow>
                       Some (None, UpdateTokenContext c ctx,
                             w\<lparr>trace := trace w @ [TokenMuxUnlock]\<rparr>))
             else Some (None, c, w))"

definition buildRequest ::
  "'e collaborators \<Rightarrow> BaseClient \<Rightarrow> RequestParams \<Rightarrow> 'e world \<Rightarrow> (error + Request) \<times> 'e world" where
  "buildRequest x c requestParams w =
     (if length (Headers requestParams) > 0
         \<and> index (Headers requestParams) ''Content-Type'' = ''multipart/form-data''
      then makeFormRequest x c requestParams w
      else if Body requestParams \<noteq> NilBody then
        (case (case Body requestParams of
                 ByteSlice contentBytes \<Rightarrow> Inr contentBytes
               | MethodMarshalerBody m \<Rightarrow> MarshalJSONByMethod x m (Method requestParams)
               | b \<Rightarrow> json_Marshal x b) of
           Inl marshalErr \<Rightarrow> (Inl marshalErr, w)
         | Inr content \<Rightarrow>
             (NewRequest x c (Method requestParams) (URL_String x (URL requestParams))
                (Some content) (Headers requestParams), w))
      else (NewRequest x c (Method requestParams) (URL_String x (URL requestParams))
              None (Headers requestParams), w))"

definition sendRequest ::
  "'e collaborators \<Rightarrow> BaseClient \<Rightarrow> RequestParams \<Rightarrow> 'e world
    \<Rightarrow> (Response option \<times> error option) \<times> BaseClient \<times> 'e world" where
  "sendRequest x c requestParams w =
     (case buildRequest x c requestParams w of
        (Inl err, w) \<Rightarrow> ((None, Some err), c, w)
      | (Inr request, w) \<Rightarrow>
          (case Do x c request w of
             ((response, err), request, c, w) \<Rightarrow>
               if err \<noteq> None then ((None, err), c, w)
               else (ParseHTTPStatusCodeInResponse x response, c, w)))"

definition DoRequest ::
  "'e collaborators \<Rightarrow> BaseClient \<Rightarrow> int \<Rightarrow> RequestParams \<Rightarrow> 'e world
    \<Rightarrow> ((Response option \<times> error option) \<times> BaseClient \<times> 'e world) option" where
  "DoRequest x c now requestParams w =
     (case renewToken x c now w of
        None \<Rightarrow> None
      | Some (Some err, c, w) \<Rightarrow> Some ((None, Some err), c, w)
      | Some (None, c, w) \<Rightarrow> Some (sendRequest x c requestParams w))"

subsection \<open>Construction\<close>

text \<open>
  Modelled from the spec: the retry policy is the default one or the configurable one.
  \<^verbatim>\<open>RetryStrategyConfig\<close> is declared in another file of the package; \<^verbatim>\<open>NewClient\<close>
  reads its pointer \<^verbatim>\<open>ConfigurableRetryConfig\<close> (here \<open>ConfigurableRetry\<close>), which is nil
  for the default policy.
\<close>

record RetryStrategyConfig =
  ConfigurableRetry :: "ConfigurableRetryConfig option"

text \<open>
  \<^verbatim>\<open>Config\<close> (lines 125 to 160); \<open>ConfigHost\<close>, \<open>ConfigScheme\<close> and \<open>ConfigTimeout\<close> are
  its fields \<^verbatim>\<open>Host\<close>, \<^verbatim>\<open>Scheme\<close> and \<^verbatim>\<open>Timeout\<close>. Durations are in nanoseconds.
\<close>

record Config =
  TokenRetriever :: "TokenRetriever option"
  Token :: string
  Tenant :: string
  ConfigHost :: string
  OverrideHost :: string
  ConfigScheme :: string
  ConfigTimeout :: int
  ResponseHandlers :: "ResponseHandler list"
  RetryRequests :: bool
  RetryConfig :: RetryStrategyConfig
  RoundTripper :: "nat option"
  TokenExpireWindow :: int
  ClientVersion :: string
  TenantScoped :: bool
  Region :: string

definition Second :: int where
  "Second = 1000000000"

definition Minute :: int where
  "Minute = 60 * Second"

text \<open>
  \<^verbatim>\<open>NewClient\<close> (lines 476 to 556). The configuration is passed by pointer and a static
  token replaces its retriever, so the configuration is returned as well. Calling the
  retriever of a configuration that has none would be a nil dereference (\<open>None\<close>).
\<close>

definition NewClient ::
  "'e collaborators \<Rightarrow> Config \<Rightarrow> 'e world \<Rightarrow> ((error + BaseClient) \<times> Config \<times> 'e world) option" where
  "NewClient x config w =
     (if ConfigHost config \<noteq> [] \<and> OverrideHost config \<noteq> []
      then Some (Inl (errors_New
             ''either config.Host or config.OverrideHost may be set, setting both is invalid''),
             config, w)
      else
        let rootDomain' = (if ConfigHost config \<noteq> [] then ConfigHost config else ''scp.splunk.com'');
            overrideHost' = (if OverrideHost config \<noteq> [] then OverrideHost config else []);
            scheme' = (if ConfigScheme config \<noteq> [] then ConfigScheme config else ''https'');
            timeout = (if ConfigTimeout config \<noteq> 0 then ConfigTimeout config else 5 * Second);
            tokenExpireWindow' =
              (if TokenExpireWindow config \<noteq> 0 then TokenExpireWindow config else 1 * Minute);
            clientVersion' = (if ClientVersion config \<noteq> [] then ClientVersion config else [])
        in if (TokenRetriever config \<noteq> None \<and> Token config \<noteq> [])
              \<or> (TokenRetriever config = None \<and> Token config = [])
           then Some (Inl (errors_New
                  ''either config.TokenRetriever or config.Token must be set, not both''),
                  config, w)
           else
             let (config, handlers) =
                   (if Token config \<noteq> []
                    then (config\<lparr>TokenRetriever := Some (NoOpTokenRetriever
                            \<lparr>AccessToken = Token config, StartTime = 0, ExpiresIn = 0\<rparr>)\<rparr>,
                          ResponseHandlers config)
                    else (config, []));
                 handlers =
                   (if RetryRequests config then
                      (case ConfigurableRetry (RetryConfig config) of
                         None \<Rightarrow> DefaultRetryResponseHandler # ResponseHandlers config
                       | Some r \<Rightarrow>
                           ConfigurableRetryResponseHandler
                             \<lparr>RetryNum = RetryNum r, Interval = Interval r,
                              ShouldRetryFn = ShouldRetryFn r\<rparr> # ResponseHandlers config)
                    else handlers)
             in case TokenRetriever config of
                  None \<Rightarrow> None
                | Some retriever \<Rightarrow>
                    (let (r, e) = GetTokenContext x retriever (env w);
                         w = w\<lparr>env := e, trace := trace w @ [CallGetTokenContext retriever]\<rparr>
                     in case r of
                          Inl err \<Rightarrow>
                            Some (Inl (errorString
                                    (''service.NewClient: error retrieving token: '' @ error_Error err)),
                                  config, w)
                        | Inr ctx \<Rightarrow>
                            Some (Inr \<lparr>defaultTenant = Tenant config, rootDomain = rootDomain',
                                       overrideHost = overrideHost', scheme = scheme',
                                       tokenContext = ctx,
                                       httpClient = \<lparr>Timeout = timeout, Transport = RoundTripper config\<rparr>,
                                       responseHandlers = handlers, tokenRetriever = retriever,
                                       tokenExpireWindow = tokenExpireWindow',
                                       clientVersion = clientVersion',
                                       tenantScoped = TenantScoped config, region = Region config\<rparr>,
                                  config, w)))"

text \<open>
  Two notions used to state what \<open>NewRequest\<close> does to the headers: the value the
  caller supplies for a canonical key (the last one the loop visits, should several of
  the caller's keys have the same canonical form), and the headers set before the
  caller's.
\<close>

definition callerValue :: "(string \<times> string) list \<Rightarrow> string \<Rightarrow> string option" where
  "callerValue headers K =
     (case filter (\<lambda>(key, v). CanonicalMIMEHeaderKey key = K) headers of
        [] \<Rightarrow> None
      | fs \<Rightarrow> Some (snd (last fs)))"

definition defaultHeaders :: "'e collaborators \<Rightarrow> BaseClient \<Rightarrow> http_Header" where
  "defaultHeaders x c K =
     (if K = ''Content-Type'' then Some [''application/json'']
      else if K = ''Splunk-Client''
      then Some [UserAgent x @ ''/'' @ Version x
                 @ (if clientVersion c \<noteq> [] then '','' @ clientVersion c else [])]
      else if K = ''Authorization''
      then (case tokenContext c of
              Some tc \<Rightarrow>
                if AccessToken tc \<noteq> [] then Some [''Bearer '' @ AccessToken tc] else None
            | None \<Rightarrow> None)
      else None)"

subsection \<open>Example values\<close>

definition exampleClient :: BaseClient where
  "exampleClient =
     \<lparr>defaultTenant = ''acme'', rootDomain = ''example.com'', overrideHost = [],
      scheme = ''https'', tokenContext = None,
      httpClient = \<lparr>Timeout = 5000000000, Transport = None\<rparr>,
      responseHandlers = [], tokenRetriever = ExternalRetriever 0,
      tokenExpireWindow = 60000000000, clientVersion = [],
      tenantScoped = True, region = ''us1''\<rparr>"

definition renderVerbatim :: "string \<Rightarrow> unit \<Rightarrow> error + string" where
  "renderVerbatim templ params = Inr templ"

definition exampleContext :: Context where
  "exampleContext = \<lparr>AccessToken = ''fresh'', StartTime = 1000, ExpiresIn = 3600\<rparr>"

text \<open>
  Collaborators for the examples. The state counts the calls made. Retriever 0 fails and
  every other retriever returns \<open>exampleContext\<close>; the network answers every request
  with status 429; the handlers pass the outcome on.
\<close>

definition exampleCollaborators :: "nat collaborators" where
  "exampleCollaborators =
     \<lparr>UserAgent = ''client-go'', Version = ''1.0.0'',
      checkRequest = (\<lambda>method url.
        if url = [] then Inl (errorString ''empty url'')
        else Inr \<lparr>Scheme = [], Host = [], Path = url, RawQuery = []\<rparr>),
      URL_String = (\<lambda>u. Scheme u @ ''://'' @ Host u @ ''/'' @ Path u),
      json_Marshal = (\<lambda>b. Inr ''{}''),
      MarshalJSONByMethod = (\<lambda>n method. Inr ''{}''),
      randomBoundary = (\<lambda>e. (''b0'', e)),
      escapeQuotes = (\<lambda>s. s),
      retrieve = (\<lambda>n e.
        (if n = 0 then Inl (errorString ''idp unavailable'') else Inr (Some exampleContext),
         Suc e)),
      http_Client_Do = (\<lambda>cl r e. (Responded \<lparr>StatusCode = 429, ResponseBody = []\<rparr>, Suc e)),
      HandleResponse = (\<lambda>h c req response w. ((response, None), req, c, w)),
      HandleRequestError = (\<lambda>h. None),
      ParseHTTPStatusCodeInResponse = (\<lambda>r.
        case r of
          None \<Rightarrow> (None, None)
        | Some response \<Rightarrow>
            if StatusCode response \<ge> 400 then (Some response, Some (errorString ''http error''))
            else (Some response, None))\<rparr>"

definition exampleWorld :: "nat world" where
  "exampleWorld = \<lparr>env = 0, trace = []\<rparr>"

definition exampleConfig :: Config where
  "exampleConfig =
     \<lparr>TokenRetriever = Some (ExternalRetriever 1), Token = [], Tenant = ''acme'',
      ConfigHost = [], OverrideHost = [], ConfigScheme = [], ConfigTimeout = 0,
      ResponseHandlers = [CallerHandler 7], RetryRequests = False,
      RetryConfig = \<lparr>ConfigurableRetry = None\<rparr>, RoundTripper = None,
      TokenExpireWindow = 0, ClientVersion = [], TenantScoped = False, Region = []\<rparr>"

text \<open>The client that \<open>NewClient\<close> makes of \<open>exampleConfig\<close>.\<close>

definition retrieverClient :: BaseClient where
  "retrieverClient =
     \<lparr>defaultTenant = ''acme'', rootDomain = ''scp.splunk.com'', overrideHost = [],
      scheme = ''https'', tokenContext = Some exampleContext,
      httpClient = \<lparr>Timeout = 5000000000, Transport = None\<rparr>,
      responseHandlers = [], tokenRetriever = ExternalRetriever 1,
      tokenExpireWindow = 60000000000, clientVersion = [],
      tenantScoped = False, region = []\<rparr>"

text \<open>A request as \<open>NewRequest\<close> leaves it: no attempt, no error.\<close>

definition exampleRequest :: Request where
  "exampleRequest =
     \<lparr>httpRequest = \<lparr>ReqMethod = ''GET'',
                      ReqURL = \<lparr>Scheme = [], Host = [], Path = ''u'', RawQuery = []\<rparr>,
                      Header = Map.empty, ReqBody = None\<rparr>,
      NumAttempts = 0, NumErrorsByType = Map.empty\<rparr>"

text \<open>Request parameters: a plain request, and a multipart upload of three bytes.\<close>

definition exampleParams :: RequestParams where
  "exampleParams =
     \<lparr>Method = ''GET'', URL = \<lparr>Scheme = ''https'', Host = ''h'', Path = ''p'', RawQuery = []\<rparr>,
      Headers = [], Body = NilBody\<rparr>"


section \<open>Properties\<close>

subsection \<open>Strings\<close>

lemma HasPrefix_iff: "HasPrefix s pre \<longleftrightarrow> (\<exists>b. s = pre @ b)"
proof
  assume "HasPrefix s pre"
  then have "s = pre @ drop (length pre) s"
    by (metis HasPrefix_def append_take_drop_id)
  then show "\<exists>b. s = pre @ b" ..
next
  assume "\<exists>b. s = pre @ b"
  then show "HasPrefix s pre"
    by (auto simp: HasPrefix_def)
qed

lemma Contains_iff: "Contains s substr \<longleftrightarrow> (\<exists>a b. s = a @ substr @ b)"
proof (induction s)
  case Nil
  then show ?case by auto
next
  case (Cons c s)
  show ?case
  proof
    assume "Contains (c # s) substr"
    then consider "HasPrefix (c # s) substr" | "Contains s substr" by auto
    then show "\<exists>a b. c # s = a @ substr @ b"
    proof cases
      case 1
      then obtain b where "c # s = substr @ b" by (auto simp: HasPrefix_iff)
      then have "c # s = [] @ substr @ b" by simp
      then show ?thesis by blast
    next
      case 2
      then obtain a b where "s = a @ substr @ b" using Cons.IH by auto
      then have "c # s = (c # a) @ substr @ b" by simp
      then show ?thesis by blast
    qed
  next
    assume "\<exists>a b. c # s = a @ substr @ b"
    then obtain a b where ab: "c # s = a @ substr @ b" by auto
    show "Contains (c # s) substr"
    proof (cases a)
      case Nil
      with ab have "HasPrefix (c # s) substr" by (auto simp: HasPrefix_iff)
      then show ?thesis by simp
    next
      case (Cons x a')
      with ab have "s = a' @ substr @ b" by simp
      then have "Contains s substr" using Cons.IH by blast
      then show ?thesis by simp
    qed
  qed
qed

subsection \<open>The models of the standard library at work\<close>

lemma path_Join_examples:
  "path_Join [''acme'', ''catalog'', ''datasets''] = ''acme/catalog/datasets''"
  "path_Join [''acme'', ''..'', ''system''] = ''system''"
  "path_Join [''a'', [], ''b/../c/''] = ''a/c''"
  "path_Join [''/'', ''..'', ''x''] = ''/x''"
  "path_Join [[], []] = []"
  by (simp_all add: path_Join_def path_Clean_def)

lemma Encode_example:
  "Encode [(''b'', [''x y'', ''z/'']), (''a'', [''1''])] = ''a=1&b=x+y&b=z%2F''"
  by code_simp

lemma CanonicalMIMEHeaderKey_examples:
  "CanonicalMIMEHeaderKey ''content-type'' = ''Content-Type''"
  "CanonicalMIMEHeaderKey ''x y'' = ''x y''"
  by (simp_all add: CanonicalMIMEHeaderKey_def validHeaderFieldByte_def upperByte_def
      lowerByte_def Let_def)

lemma Sprintf_d_examples:
  "Sprintf_d 429 = ''429''"
  "Sprintf_d 0 = ''0''"
  "Sprintf_d (- 5) = ''-5''"
  by (simp_all add: Sprintf_d_def decimal.simps)

subsection \<open>Host construction\<close>

text \<open>
  Claim C5. For every service cluster and every prefix value, \<open>BuildHost\<close> returns the
  override host whenever one is configured; otherwise the host is the optional prefix,
  then the service cluster (or \<^verbatim>\<open>api\<close> when the service cluster is empty), a dot and the
  root domain, where the optional prefix is empty for an empty prefix value and the value
  followed by a dot otherwise.
\<close>

theorem BuildHost_cases:
  "BuildHost c serviceCluster v =
     (if overrideHost c \<noteq> [] then overrideHost c
      else (if v = [] then [] else v @ ''.'')
           @ (if serviceCluster \<noteq> [] then serviceCluster else ''api'')
           @ ''.'' @ rootDomain c)"
  by (simp add: BuildHost_def)

text \<open>The examples of the specification: \<^verbatim>\<open>example.com\<close> with and without a cluster,
  and an override host.\<close>

lemma BuildHost_examples:
  "BuildHost exampleClient ''catalog'' [] = ''catalog.example.com''"
  "BuildHost exampleClient [] [] = ''api.example.com''"
  "BuildHost (exampleClient\<lparr>overrideHost := ''x.test''\<rparr>) serviceCluster v = ''x.test''"
  by (simp_all add: BuildHost_def exampleClient_def)

subsection \<open>Tenant-based URLs\<close>

text \<open>
  Claim C7. With an empty tenant \<open>BuildURLWithTenant\<close> returns an error, whatever the
  scoping flag, the region, the query values, the service cluster and the path segments.
\<close>

theorem BuildURLWithTenant_empty_tenant:
  "BuildURLWithTenant c [] scoped reg queryValues serviceCluster urlPathParts =
     Inl (errors_New ''a non-empty tenant must be specified'')"
  by (simp add: BuildURLWithTenant_def)

text \<open>
  Claim C3. With a non-empty tenant \<open>BuildURLWithTenant\<close> returns a URL whose path is the
  tenant joined with the path segments, and whose host is built with the prefix: the
  region when the client is tenant-scoped, the region is non-empty and the joined path
  contains \<^verbatim>\<open>system\<close>; the tenant when it is tenant-scoped and the joined path does not
  contain \<^verbatim>\<open>system\<close>; and no prefix otherwise. By \<open>Contains_iff\<close> the path contains
  \<^verbatim>\<open>system\<close> when the word stands anywhere in it, the tenant included.
\<close>

theorem BuildURLWithTenant_path_and_prefix:
  assumes "tenant \<noteq> []"
  shows "\<exists>u. BuildURLWithTenant c tenant scoped reg queryValues serviceCluster urlPathParts = Inr u
           \<and> Path u = path_Join (tenant # urlPathParts)
           \<and> Host u = BuildHost c serviceCluster
               (if scoped \<and> reg \<noteq> [] \<and> Contains (path_Join (tenant # urlPathParts)) ''system''
                then reg
                else if scoped \<and> \<not> Contains (path_Join (tenant # urlPathParts)) ''system''
                then tenant
                else [])"
  using assms by (simp add: BuildURLWithTenant_def Let_def)

theorem BuildURLWithTenant_path_and_prefix_witness:
  "''acme'' \<noteq> []
   \<and> (\<exists>u. BuildURLWithTenant exampleClient ''acme'' True ''us1'' None [] [''system/config''] = Inr u
          \<and> Path u = ''acme/system/config'' \<and> Host u = ''us1.api.example.com'')"
proof -
  have ne: "''acme'' \<noteq> []" by simp
  have p: "path_Join [''acme'', ''system/config''] = ''acme/system/config''"
    by (simp add: path_Join_def path_Clean_def)
  show ?thesis
    using BuildURLWithTenant_path_and_prefix
      [OF ne, of exampleClient True "''us1''" None "[]" "[''system/config'']"]
    by (simp add: p HasPrefix_def BuildHost_def exampleClient_def)
qed

text \<open>The other cases of the prefix at concrete inputs: a path without \<^verbatim>\<open>system\<close>, a
  client that is not tenant-scoped, and an empty region with a \<^verbatim>\<open>system\<close> path.\<close>

lemma BuildURLWithTenant_examples:
  "map_sum id Host (BuildURLWithTenant exampleClient ''acme'' True ''us1'' None []
     [''catalog'', ''datasets'']) = Inr ''acme.api.example.com''"
  "map_sum id Host (BuildURLWithTenant exampleClient ''acme'' False ''us1'' None []
     [''catalog'', ''datasets'']) = Inr ''api.example.com''"
  "map_sum id Host (BuildURLWithTenant exampleClient ''acme'' True [] None []
     [''system/config'']) = Inr ''api.example.com''"
  by (simp_all add: BuildURLWithTenant_def path_Join_def path_Clean_def HasPrefix_def
      BuildHost_def exampleClient_def)

subsection \<open>Template-based URLs\<close>

text \<open>
  Claim C4 as stated decides the failure and the host prefix on the rendered path. The
  code decides them on the path after the tenant was prepended. The two differ when the
  prepended path starts with \<^verbatim>\<open>/system/\<close> although the rendered one does not: with the
  default tenant \<^verbatim>\<open>system\<close>, tenant-scoped, the rendered path \<^verbatim>\<open>/foo\<close> does not start
  with \<^verbatim>\<open>/system/\<close>, yet with an empty region the call fails with
  \<^verbatim>\<open>region cannot be empty\<close>, and with the region \<^verbatim>\<open>us1\<close> the host has the prefix
  \<^verbatim>\<open>region-us1\<close> and not the tenant prefix \<^verbatim>\<open>system\<close>.
\<close>

theorem BuildURLFromPathParams_rendered_path_counterexample:
  "renderVerbatim ''/foo'' () = Inr ''/foo''
   \<and> \<not> HasPrefix ''/foo'' ''/system/''
   \<and> tenantScoped (exampleClient\<lparr>defaultTenant := ''system'', region := []\<rparr>)
   \<and> BuildURLFromPathParams renderVerbatim
         (exampleClient\<lparr>defaultTenant := ''system'', region := []\<rparr>) None [] ''/foo'' ()
       = Inl (errors_New ''region cannot be empty'')
   \<and> tenantScoped (exampleClient\<lparr>defaultTenant := ''system''\<rparr>)
   \<and> region (exampleClient\<lparr>defaultTenant := ''system''\<rparr>) = ''us1''
   \<and> map_sum id Host (BuildURLFromPathParams renderVerbatim
         (exampleClient\<lparr>defaultTenant := ''system''\<rparr>) None [] ''/foo'' ())
       = Inr ''region-us1.api.example.com''
   \<and> BuildHost (exampleClient\<lparr>defaultTenant := ''system''\<rparr>) []
         (defaultTenant (exampleClient\<lparr>defaultTenant := ''system''\<rparr>))
       = ''system.api.example.com''"
  by (simp add: BuildURLFromPathParams_def renderVerbatim_def HasPrefix_def
      BuildHost_def exampleClient_def)

text \<open>
  Claim C4, amended. Let the template render to \<open>buf\<close>. The path of the request is
  \<open>buf\<close> when \<open>buf\<close> starts with \<^verbatim>\<open>/system/\<close>, and a slash, the default tenant and
  \<open>buf\<close> otherwise. \<open>BuildURLFromPathParams\<close> fails with \<^verbatim>\<open>region cannot be empty\<close>
  exactly when the client is tenant-scoped, this path (the one after the tenant was
  prepended) starts with \<^verbatim>\<open>/system/\<close> and the region is empty. Otherwise it returns a
  URL with this path, whose host is built with the prefix \<^verbatim>\<open>region-\<close> followed by the
  region when the client is tenant-scoped and this path starts with \<^verbatim>\<open>/system/\<close>, the
  default tenant when it is tenant-scoped and this path does not, and no prefix when the
  client is not tenant-scoped.
\<close>

theorem BuildURLFromPathParams_cases:
  assumes "render templ pathParams = Inr buf"
    and "path = (if HasPrefix buf ''/system/'' then buf else ''/'' @ defaultTenant c @ buf)"
  shows "(BuildURLFromPathParams render c queryValues serviceCluster templ pathParams
            = Inl (errors_New ''region cannot be empty'')
          \<longleftrightarrow> tenantScoped c \<and> HasPrefix path ''/system/'' \<and> region c = [])
       \<and> (if tenantScoped c \<and> HasPrefix path ''/system/'' \<and> region c = []
          then True
          else \<exists>u. BuildURLFromPathParams render c queryValues serviceCluster templ pathParams
                      = Inr u
                 \<and> Path u = path
                 \<and> Host u = BuildHost c serviceCluster
                     (if tenantScoped c
                      then if HasPrefix path ''/system/'' then ''region-'' @ region c
                           else defaultTenant c
                      else []))"
  using assms by (auto simp: BuildURLFromPathParams_def Let_def)

theorem BuildURLFromPathParams_cases_witness:
  "renderVerbatim ''/system/foo'' () = Inr ''/system/foo''
   \<and> BuildURLFromPathParams renderVerbatim (exampleClient\<lparr>region := []\<rparr>) None []
        ''/system/foo'' () = Inl (errors_New ''region cannot be empty'')
   \<and> (\<exists>u. BuildURLFromPathParams renderVerbatim exampleClient None [] ''/system/foo'' ()
            = Inr u
        \<and> Path u = ''/system/foo'' \<and> Host u = ''region-us1.api.example.com'')
   \<and> (\<exists>u. BuildURLFromPathParams renderVerbatim exampleClient None [] ''/catalog/v2'' ()
            = Inr u
        \<and> Path u = ''/acme/catalog/v2'' \<and> Host u = ''acme.api.example.com'')"
proof -
  let ?c0 = "exampleClient\<lparr>region := []\<rparr>"
  have r1: "renderVerbatim ''/system/foo'' () = Inr ''/system/foo''"
    and r2: "renderVerbatim ''/catalog/v2'' () = Inr ''/catalog/v2''"
    by (simp_all add: renderVerbatim_def)
  have p0: "''/system/foo'' = (if HasPrefix ''/system/foo'' ''/system/'' then ''/system/foo''
              else ''/'' @ defaultTenant ?c0 @ ''/system/foo'')"
    and p1: "''/system/foo'' = (if HasPrefix ''/system/foo'' ''/system/'' then ''/system/foo''
              else ''/'' @ defaultTenant exampleClient @ ''/system/foo'')"
    and p2: "''/acme/catalog/v2'' = (if HasPrefix ''/catalog/v2'' ''/system/'' then ''/catalog/v2''
              else ''/'' @ defaultTenant exampleClient @ ''/catalog/v2'')"
    by (simp_all add: HasPrefix_def exampleClient_def)
  note inst = BuildURLFromPathParams_cases
    [where render = renderVerbatim and pathParams = "()" and queryValues = None
       and serviceCluster = "[]"]
  show ?thesis
    using inst [where c = ?c0 and templ = "''/system/foo''" and buf = "''/system/foo''"
          and path = "''/system/foo''", OF r1 p0]
      inst [where c = exampleClient and templ = "''/system/foo''" and buf = "''/system/foo''"
          and path = "''/system/foo''", OF r1 p1]
      inst [where c = exampleClient and templ = "''/catalog/v2''" and buf = "''/catalog/v2''"
          and path = "''/acme/catalog/v2''", OF r2 p2]
    by (simp add: r1 HasPrefix_def BuildHost_def exampleClient_def)
qed

subsection \<open>Construction\<close>

text \<open>The two configuration checks, and what \<open>NewClient\<close> does once both have passed.\<close>

lemma NewClient_host_conflict:
  "ConfigHost config \<noteq> [] \<Longrightarrow> OverrideHost config \<noteq> [] \<Longrightarrow>
   NewClient x config w = Some (Inl (errors_New
        ''either config.Host or config.OverrideHost may be set, setting both is invalid''),
        config, w)"
  by (simp add: NewClient_def)

lemma NewClient_token_conflict:
  "(TokenRetriever config = None) = (Token config = []) \<Longrightarrow>
   \<exists>err. NewClient x config w = Some (Inl err, config, w)"
  by (cases "ConfigHost config \<noteq> [] \<and> OverrideHost config \<noteq> []")
     (auto simp add: NewClient_def Let_def)

lemma if_nonempty: "(if s \<noteq> [] then s else []) = s"
  by simp

lemma NewClient_proceeds:
  assumes "\<not> (ConfigHost config \<noteq> [] \<and> OverrideHost config \<noteq> [])"
    and "(TokenRetriever config = None) \<noteq> (Token config = [])"
    and "retriever = (case TokenRetriever config of
               Some r \<Rightarrow> r
             | None \<Rightarrow> NoOpTokenRetriever
                 \<lparr>AccessToken = Token config, StartTime = 0, ExpiresIn = 0\<rparr>)"
    and "GetTokenContext x retriever (env w) = (r, e)"
  shows "NewClient x config w =
     (let config' = (if Token config \<noteq> [] then config\<lparr>TokenRetriever := Some retriever\<rparr> else config);
          w' = w\<lparr>env := e, trace := trace w @ [CallGetTokenContext retriever]\<rparr>
      in case r of
           Inl err \<Rightarrow> Some (Inl (errorString
                        (''service.NewClient: error retrieving token: '' @ error_Error err)),
                      config', w')
         | Inr ctx \<Rightarrow>
             Some (Inr \<lparr>defaultTenant = Tenant config,
                        rootDomain = (if ConfigHost config \<noteq> [] then ConfigHost config else ''scp.splunk.com''),
                        overrideHost = OverrideHost config,
                        scheme = (if ConfigScheme config \<noteq> [] then ConfigScheme config else ''https''),
                        tokenContext = ctx,
                        httpClient = \<lparr>Timeout = (if ConfigTimeout config \<noteq> 0 then ConfigTimeout config else 5 * Second),
                                      Transport = RoundTripper config\<rparr>,
                        responseHandlers =
                          (if RetryRequests config then
                             (case ConfigurableRetry (RetryConfig config) of
                                None \<Rightarrow> DefaultRetryResponseHandler # ResponseHandlers config
                              | Some rc \<Rightarrow> ConfigurableRetryResponseHandler rc # ResponseHandlers config)
                           else if Token config \<noteq> [] then ResponseHandlers config
                           else []),
                        tokenRetriever = retriever,
                        tokenExpireWindow = (if TokenExpireWindow config \<noteq> 0 then TokenExpireWindow config else Minute),
                        clientVersion = ClientVersion config,
                        tenantScoped = TenantScoped config, region = Region config\<rparr>,
                   config', w'))"
proof -
  have hosts: "ConfigHost config = [] \<or> (ConfigHost config \<noteq> [] \<and> OverrideHost config = [])"
    using assms(1) by auto
  have tokens: "(TokenRetriever config = None \<and> Token config \<noteq> [])
      \<or> (\<exists>r0. TokenRetriever config = Some r0 \<and> Token config = [])"
    using assms(2) by (cases "TokenRetriever config") auto
  from hosts tokens show ?thesis
    using assms(3,4)
    by (elim disjE conjE exE;
        simp add: NewClient_def Let_def if_nonempty
          split del: if_split cong del: if_weak_cong split: sum.splits;
        auto split: option.splits)
qed

text \<open>\<open>NewClient\<close> always returns: the retriever it calls is never nil.\<close>

lemma NewClient_returns: "\<exists>r. NewClient x config w = Some r"
proof (cases "ConfigHost config \<noteq> [] \<and> OverrideHost config \<noteq> []")
  case True
  then show ?thesis by (simp add: NewClient_host_conflict)
next
  case hosts: False
  show ?thesis
  proof (cases "(TokenRetriever config = None) = (Token config = [])")
    case True
    from NewClient_token_conflict [OF this] obtain err where
      "NewClient x config w = Some (Inl err, config, w)" ..
    then show ?thesis by simp
  next
    case False
    obtain r e where "GetTokenContext x
        (case TokenRetriever config of
           Some r \<Rightarrow> r
         | None \<Rightarrow> NoOpTokenRetriever \<lparr>AccessToken = Token config, StartTime = 0, ExpiresIn = 0\<rparr>)
        (env w) = (r, e)"
      by (meson surj_pair)
    from NewClient_proceeds [OF hosts False refl this] show ?thesis
      by (cases r) (simp_all add: Let_def)
  qed
qed

text \<open>What a constructed client tells about the configuration it came from.\<close>

lemma NewClient_client:
  assumes ok: "NewClient x config w = Some (Inr c, config', w')"
  shows "\<not> (ConfigHost config \<noteq> [] \<and> OverrideHost config \<noteq> [])"
    and "(TokenRetriever config = None) \<noteq> (Token config = [])"
    and "rootDomain c = (if ConfigHost config \<noteq> [] then ConfigHost config else ''scp.splunk.com'')"
    and "overrideHost c = OverrideHost config"
    and "tokenRetriever c =
           (case TokenRetriever config of
              Some r \<Rightarrow> r
            | None \<Rightarrow> NoOpTokenRetriever
                \<lparr>AccessToken = Token config, StartTime = 0, ExpiresIn = 0\<rparr>)"
    and "responseHandlers c =
           (if RetryRequests config then
              (case ConfigurableRetry (RetryConfig config) of
                 None \<Rightarrow> DefaultRetryResponseHandler # ResponseHandlers config
               | Some rc \<Rightarrow> ConfigurableRetryResponseHandler rc # ResponseHandlers config)
            else if Token config \<noteq> [] then ResponseHandlers config
            else [])"
proof -
  show hosts: "\<not> (ConfigHost config \<noteq> [] \<and> OverrideHost config \<noteq> [])"
    using ok NewClient_host_conflict [of config x w] by auto
  show tokens: "(TokenRetriever config = None) \<noteq> (Token config = [])"
    using ok NewClient_token_conflict [of config x w] by auto
  define retriever where "retriever =
    (case TokenRetriever config of
       Some r \<Rightarrow> r
     | None \<Rightarrow> NoOpTokenRetriever \<lparr>AccessToken = Token config, StartTime = 0, ExpiresIn = 0\<rparr>)"
  obtain r e where g: "GetTokenContext x retriever (env w) = (r, e)"
    by (cases "GetTokenContext x retriever (env w)")
  note eq = NewClient_proceeds [OF hosts tokens retriever_def g]
  from ok eq obtain ctx where "r = Inr ctx"
    by (cases r) (auto simp: Let_def)
  with ok eq have c: "c = \<lparr>defaultTenant = Tenant config,
      rootDomain = (if ConfigHost config \<noteq> [] then ConfigHost config else ''scp.splunk.com''),
      overrideHost = OverrideHost config,
      scheme = (if ConfigScheme config \<noteq> [] then ConfigScheme config else ''https''),
      tokenContext = ctx,
      httpClient = \<lparr>Timeout = (if ConfigTimeout config \<noteq> 0 then ConfigTimeout config else 5 * Second),
                    Transport = RoundTripper config\<rparr>,
      responseHandlers =
        (if RetryRequests config then
           (case ConfigurableRetry (RetryConfig config) of
              None \<Rightarrow> DefaultRetryResponseHandler # ResponseHandlers config
            | Some rc \<Rightarrow> ConfigurableRetryResponseHandler rc # ResponseHandlers config)
         else if Token config \<noteq> [] then ResponseHandlers config
         else []),
      tokenRetriever = retriever,
      tokenExpireWindow = (if TokenExpireWindow config \<noteq> 0 then TokenExpireWindow config else Minute),
      clientVersion = ClientVersion config,
      tenantScoped = TenantScoped config, region = Region config\<rparr>"
    by (simp add: Let_def split del: if_split)
  show "rootDomain c = (if ConfigHost config \<noteq> [] then ConfigHost config else ''scp.splunk.com'')"
    by (subst c) (simp split del: if_split)
  show "overrideHost c = OverrideHost config"
    by (subst c) (simp split del: if_split)
  show "tokenRetriever c =
           (case TokenRetriever config of
              Some r \<Rightarrow> r
            | None \<Rightarrow> NoOpTokenRetriever
                \<lparr>AccessToken = Token config, StartTime = 0, ExpiresIn = 0\<rparr>)"
    by (subst c) (simp add: retriever_def split del: if_split)
  show "responseHandlers c =
           (if RetryRequests config then
              (case ConfigurableRetry (RetryConfig config) of
                 None \<Rightarrow> DefaultRetryResponseHandler # ResponseHandlers config
               | Some rc \<Rightarrow> ConfigurableRetryResponseHandler rc # ResponseHandlers config)
            else if Token config \<noteq> [] then ResponseHandlers config
            else [])"
    by (subst c) (simp split del: if_split)
qed

text \<open>
  Claim C6. \<open>NewClient\<close> returns an error and no client, before any call to a
  collaborator, when the configuration sets both \<^verbatim>\<open>Host\<close> and \<^verbatim>\<open>OverrideHost\<close>, and
  when it sets both or neither of \<^verbatim>\<open>Token\<close> and \<^verbatim>\<open>TokenRetriever\<close>. Whenever a client
  is constructed, exactly one of the two token sources was configured and it is the
  client's retriever (the no-op retriever of the static token, or the configured one),
  and at most one of \<^verbatim>\<open>Host\<close> and \<^verbatim>\<open>OverrideHost\<close> was configured: the client's root
  domain is the configured host or else the default, its override host is the
  configured one.
\<close>

theorem NewClient_configuration_checks:
  "(ConfigHost config \<noteq> [] \<and> OverrideHost config \<noteq> [] \<longrightarrow>
      NewClient x config w = Some (Inl (errors_New
        ''either config.Host or config.OverrideHost may be set, setting both is invalid''),
        config, w))
   \<and> ((TokenRetriever config \<noteq> None \<and> Token config \<noteq> [])
       \<or> (TokenRetriever config = None \<and> Token config = []) \<longrightarrow>
      (\<exists>err. NewClient x config w = Some (Inl err, config, w)))
   \<and> (\<forall>c config' w'. NewClient x config w = Some (Inr c, config', w') \<longrightarrow>
        ((TokenRetriever config = None) \<noteq> (Token config = []))
        \<and> tokenRetriever c =
            (case TokenRetriever config of
               Some r \<Rightarrow> r
             | None \<Rightarrow> NoOpTokenRetriever
                 \<lparr>AccessToken = Token config, StartTime = 0, ExpiresIn = 0\<rparr>)
        \<and> \<not> (ConfigHost config \<noteq> [] \<and> OverrideHost config \<noteq> [])
        \<and> rootDomain c = (if ConfigHost config \<noteq> [] then ConfigHost config else ''scp.splunk.com'')
        \<and> overrideHost c = OverrideHost config)"
proof (intro conjI allI impI)
  assume "ConfigHost config \<noteq> [] \<and> OverrideHost config \<noteq> []"
  then show "NewClient x config w = Some (Inl (errors_New
        ''either config.Host or config.OverrideHost may be set, setting both is invalid''),
        config, w)"
    by (simp add: NewClient_host_conflict)
next
  assume "(TokenRetriever config \<noteq> None \<and> Token config \<noteq> [])
       \<or> (TokenRetriever config = None \<and> Token config = [])"
  then have "(TokenRetriever config = None) = (Token config = [])" by auto
  then show "\<exists>err. NewClient x config w = Some (Inl err, config, w)"
    by (rule NewClient_token_conflict)
next
  fix c config' w'
  assume ok: "NewClient x config w = Some (Inr c, config', w')"
  note f = NewClient_client [OF ok]
  show "(TokenRetriever config = None) \<noteq> (Token config = [])" by (rule f(2))
  show "\<not> (ConfigHost config \<noteq> [] \<and> OverrideHost config \<noteq> [])" by (rule f(1))
  show "tokenRetriever c =
            (case TokenRetriever config of
               Some r \<Rightarrow> r
             | None \<Rightarrow> NoOpTokenRetriever
                 \<lparr>AccessToken = Token config, StartTime = 0, ExpiresIn = 0\<rparr>)"
    by (rule f(5))
  show "rootDomain c = (if ConfigHost config \<noteq> [] then ConfigHost config else ''scp.splunk.com'')"
    by (rule f(3))
  show "overrideHost c = OverrideHost config" by (rule f(4))
qed

text \<open>The example configuration yields \<open>retrieverClient\<close>, after one call of its retriever.\<close>

lemma exampleClient_constructed:
  "NewClient exampleCollaborators exampleConfig exampleWorld =
     Some (Inr retrieverClient, exampleConfig,
           \<lparr>env = 1, trace = [CallGetTokenContext (ExternalRetriever 1)]\<rparr>)"
  by (simp add: NewClient_def Let_def exampleConfig_def exampleCollaborators_def
      exampleWorld_def GetTokenContext_def Second_def Minute_def retrieverClient_def)

theorem NewClient_configuration_checks_witness:
  "NewClient exampleCollaborators
      (exampleConfig\<lparr>ConfigHost := ''a.test'', OverrideHost := ''b.test''\<rparr>) exampleWorld
     = Some (Inl (errors_New
        ''either config.Host or config.OverrideHost may be set, setting both is invalid''),
        exampleConfig\<lparr>ConfigHost := ''a.test'', OverrideHost := ''b.test''\<rparr>, exampleWorld)
   \<and> (\<exists>err. NewClient exampleCollaborators (exampleConfig\<lparr>Token := ''t0''\<rparr>) exampleWorld
          = Some (Inl err, exampleConfig\<lparr>Token := ''t0''\<rparr>, exampleWorld))
   \<and> (\<exists>err. NewClient exampleCollaborators (exampleConfig\<lparr>TokenRetriever := None\<rparr>) exampleWorld
          = Some (Inl err, exampleConfig\<lparr>TokenRetriever := None\<rparr>, exampleWorld))
   \<and> (\<exists>c config' w'. NewClient exampleCollaborators exampleConfig exampleWorld
          = Some (Inr c, config', w')
        \<and> tokenRetriever c = ExternalRetriever 1 \<and> rootDomain c = ''scp.splunk.com''
        \<and> overrideHost c = [])"
proof -
  let ?X = exampleCollaborators and ?W = exampleWorld
  have a: "ConfigHost (exampleConfig\<lparr>ConfigHost := ''a.test'', OverrideHost := ''b.test''\<rparr>) \<noteq> []
      \<and> OverrideHost (exampleConfig\<lparr>ConfigHost := ''a.test'', OverrideHost := ''b.test''\<rparr>) \<noteq> []"
    by simp
  have b: "(TokenRetriever (exampleConfig\<lparr>Token := ''t0''\<rparr>) \<noteq> None
        \<and> Token (exampleConfig\<lparr>Token := ''t0''\<rparr>) \<noteq> [])
      \<or> (TokenRetriever (exampleConfig\<lparr>Token := ''t0''\<rparr>) = None
        \<and> Token (exampleConfig\<lparr>Token := ''t0''\<rparr>) = [])"
    by (simp add: exampleConfig_def)
  have c: "(TokenRetriever (exampleConfig\<lparr>TokenRetriever := None\<rparr>) \<noteq> None
        \<and> Token (exampleConfig\<lparr>TokenRetriever := None\<rparr>) \<noteq> [])
      \<or> (TokenRetriever (exampleConfig\<lparr>TokenRetriever := None\<rparr>) = None
        \<and> Token (exampleConfig\<lparr>TokenRetriever := None\<rparr>) = [])"
    by (simp add: exampleConfig_def)
  note t = NewClient_configuration_checks [where x = ?X and w = ?W]
  from t [of "exampleConfig\<lparr>ConfigHost := ''a.test'', OverrideHost := ''b.test''\<rparr>"] a
  have 1: "NewClient ?X (exampleConfig\<lparr>ConfigHost := ''a.test'', OverrideHost := ''b.test''\<rparr>) ?W
     = Some (Inl (errors_New
        ''either config.Host or config.OverrideHost may be set, setting both is invalid''),
        exampleConfig\<lparr>ConfigHost := ''a.test'', OverrideHost := ''b.test''\<rparr>, ?W)"
    by blast
  from t [of "exampleConfig\<lparr>Token := ''t0''\<rparr>"] b
  have 2: "\<exists>err. NewClient ?X (exampleConfig\<lparr>Token := ''t0''\<rparr>) ?W
          = Some (Inl err, exampleConfig\<lparr>Token := ''t0''\<rparr>, ?W)"
    by blast
  from t [of "exampleConfig\<lparr>TokenRetriever := None\<rparr>"] c
  have 3: "\<exists>err. NewClient ?X (exampleConfig\<lparr>TokenRetriever := None\<rparr>) ?W
          = Some (Inl err, exampleConfig\<lparr>TokenRetriever := None\<rparr>, ?W)"
    by blast
  from t [of exampleConfig] exampleClient_constructed
  have 4: "\<exists>c config' w'. NewClient ?X exampleConfig ?W = Some (Inr c, config', w')
        \<and> tokenRetriever c = ExternalRetriever 1 \<and> rootDomain c = ''scp.splunk.com''
        \<and> overrideHost c = []"
    by (simp add: exampleConfig_def)
  from 1 2 3 4 show ?thesis by blast
qed

text \<open>
  Claim C10. When a client is constructed from a configuration with a token retriever
  (and so no static token) and without \<^verbatim>\<open>RetryRequests\<close>, its list of response
  handlers is empty, whatever handlers the configuration supplies. The supplied handlers
  are installed only with a static token or with \<^verbatim>\<open>RetryRequests\<close>: the list is the
  retry handler followed by the supplied handlers with \<^verbatim>\<open>RetryRequests\<close>, else the
  supplied handlers with a static token, else empty.
\<close>

theorem NewClient_response_handlers:
  assumes "NewClient x config w = Some (Inr c, config', w')"
  shows "(TokenRetriever config \<noteq> None \<and> \<not> RetryRequests config \<longrightarrow> responseHandlers c = [])
       \<and> (set (ResponseHandlers config) \<subseteq> set (responseHandlers c)
            \<and> ResponseHandlers config \<noteq> [] \<longrightarrow>
          Token config \<noteq> [] \<or> RetryRequests config)
       \<and> responseHandlers c =
           (if RetryRequests config then
              (case ConfigurableRetry (RetryConfig config) of
                 None \<Rightarrow> DefaultRetryResponseHandler
               | Some rc \<Rightarrow> ConfigurableRetryResponseHandler rc) # ResponseHandlers config
            else if Token config \<noteq> [] then ResponseHandlers config
            else [])"
proof -
  note f = NewClient_client [OF assms]
  have t: "TokenRetriever config \<noteq> None \<Longrightarrow> Token config = []"
    using f(2) by auto
  show ?thesis
    using f(6) t by (auto split: option.splits)
qed

theorem NewClient_response_handlers_witness:
  "\<exists>c config' w'. NewClient exampleCollaborators exampleConfig exampleWorld
       = Some (Inr c, config', w')
     \<and> TokenRetriever exampleConfig \<noteq> None \<and> \<not> RetryRequests exampleConfig
     \<and> ResponseHandlers exampleConfig = [CallerHandler 7]
     \<and> responseHandlers c = []"
proof -
  have 1: "TokenRetriever exampleConfig \<noteq> None \<and> \<not> RetryRequests exampleConfig"
    by (simp add: exampleConfig_def)
  have 2: "ResponseHandlers exampleConfig = [CallerHandler 7]"
    by (simp add: exampleConfig_def)
  have 3: "responseHandlers retrieverClient = []"
    using NewClient_response_handlers [OF exampleClient_constructed] 1 by blast
  show ?thesis
    using exampleClient_constructed 1 2 3 by blast
qed

subsection \<open>Building a request\<close>

lemma Header_Set_apply:
  "Header_Set h key v K = (if K = CanonicalMIMEHeaderKey key then Some [v] else h K)"
  by (simp add: Header_Set_def)

text \<open>Setting the caller's headers one after the other: for each canonical key the last
  value set stays.\<close>

lemma fold_Header_Set:
  "fold (\<lambda>(key, v) h. Header_Set h key v) hs h0 K =
     (case filter (\<lambda>(key, v). CanonicalMIMEHeaderKey key = K) hs of
        [] \<Rightarrow> h0 K
      | fs \<Rightarrow> Some [snd (last fs)])"
proof (induction hs rule: rev_induct)
  case Nil
  then show ?case by simp
next
  case (snoc kv hs)
  obtain k v where kv: "kv = (k, v)" by (cases kv)
  show ?case
    using snoc.IH by (auto simp add: kv Header_Set_apply split: list.splits)
qed

lemma canonical_defaults:
  "CanonicalMIMEHeaderKey ''Authorization'' = ''Authorization''"
  "CanonicalMIMEHeaderKey ''Splunk-Client'' = ''Splunk-Client''"
  "CanonicalMIMEHeaderKey ''Content-Type'' = ''Content-Type''"
  by (simp_all add: CanonicalMIMEHeaderKey_def validHeaderFieldByte_def upperByte_def
      lowerByte_def Let_def)

lemma http_NewRequest_Inr:
  assumes "http_NewRequest x method url body = Inr request"
  shows "Header request = Map.empty" and "ReqBody request = body"
  using assms by (auto simp: http_NewRequest_def split: sum.splits)

lemma NewRequest_Inr:
  assumes "NewRequest x c httpMethod url body headers = Inr r"
  shows "\<exists>request. http_NewRequest x httpMethod url body = Inr request
     \<and> httpRequest r = request
          \<lparr>Header := fold (\<lambda>(key, v) h. Header_Set h key v) headers (defaultHeaders x c)\<rparr>
     \<and> NumAttempts r = 0 \<and> NumErrorsByType r = Map.empty"
proof -
  from assms obtain request where
    req: "http_NewRequest x httpMethod url body = Inr request"
    by (cases "http_NewRequest x httpMethod url body") (simp_all add: NewRequest_def)
  note h0 = http_NewRequest_Inr(1) [OF req]
  let ?h3 = "Header_Set (Header_Set
             (case tokenContext c of
                Some tc \<Rightarrow>
                  if length (AccessToken tc) > 0
                  then Header_Set (Header request) ''Authorization''
                         (AuthorizationType @ '' '' @ AccessToken tc)
                  else Header request
              | None \<Rightarrow> Header request)
             ''Splunk-Client''
             (if length (clientVersion c) > 0
              then (UserAgent x @ ''/'' @ Version x) @ '','' @ clientVersion c
              else UserAgent x @ ''/'' @ Version x))
           ''Content-Type'' ''application/json''"
  let ?F = "\<lambda>(key, v) h. Header_Set h key v"
  have d: "?h3 = defaultHeaders x c"
    by (rule ext)
       (simp add: Header_Set_apply canonical_defaults defaultHeaders_def h0
          AuthorizationType_def split: option.splits)
  have r: "r = \<lparr>httpRequest = request
                  \<lparr>Header := (if length headers \<noteq> 0 then fold ?F headers ?h3 else ?h3)\<rparr>,
                NumAttempts = 0, NumErrorsByType = Map.empty\<rparr>"
    using assms unfolding NewRequest_def req Let_def by auto
  have f: "(if length headers \<noteq> 0 then fold ?F headers ?h3 else ?h3) = fold ?F headers ?h3"
    by (cases headers) simp_all
  show ?thesis
    unfolding r f d using req by simp
qed

lemma NewRequest_Header:
  assumes "NewRequest x c httpMethod url body headers = Inr r"
  shows "Header (httpRequest r) K =
          (case callerValue headers K of Some v \<Rightarrow> Some [v] | None \<Rightarrow> defaultHeaders x c K)"
proof -
  from NewRequest_Inr [OF assms] obtain request where
    r: "httpRequest r = request
          \<lparr>Header := fold (\<lambda>(key, v) h. Header_Set h key v) headers (defaultHeaders x c)\<rparr>"
    by blast
  show ?thesis
    by (simp add: r fold_Header_Set callerValue_def split: list.splits)
qed

text \<open>
  Claim C8. A request made by \<open>NewRequest\<close> has both counters at their start: no
  attempt, no error. Its headers are, key by key, the caller's value where the caller
  supplies one, and otherwise the defaults: \<^verbatim>\<open>Content-Type: application/json\<close>; the
  client identification \<^verbatim>\<open>Splunk-Client\<close>, which is the agent, a slash and the SDK
  version, followed by a comma and the client version when there is one; and
  \<^verbatim>\<open>Authorization: Bearer\<close> with the token exactly when the client holds a non-empty
  access token.
\<close>

theorem NewRequest_headers:
  assumes "NewRequest x c httpMethod url body headers = Inr r"
  shows "NumAttempts r = 0 \<and> NumErrorsByType r = Map.empty
    \<and> (\<forall>K. Header (httpRequest r) K =
          (case callerValue headers K of
             Some v \<Rightarrow> Some [v]
           | None \<Rightarrow>
               if K = ''Content-Type'' then Some [''application/json'']
               else if K = ''Splunk-Client''
               then Some [UserAgent x @ ''/'' @ Version x
                          @ (if clientVersion c \<noteq> [] then '','' @ clientVersion c else [])]
               else if K = ''Authorization''
               then (case tokenContext c of
                       Some tc \<Rightarrow>
                         if AccessToken tc \<noteq> [] then Some [''Bearer '' @ AccessToken tc] else None
                     | None \<Rightarrow> None)
               else None))"
proof -
  from NewRequest_Inr [OF assms] have n: "NumAttempts r = 0" "NumErrorsByType r = Map.empty"
    by auto
  have "\<forall>K. Header (httpRequest r) K =
          (case callerValue headers K of Some v \<Rightarrow> Some [v] | None \<Rightarrow> defaultHeaders x c K)"
    using NewRequest_Header [OF assms] by blast
  then show ?thesis
    unfolding defaultHeaders_def using n by blast
qed

text \<open>The caller's \<^verbatim>\<open>content-type\<close> replaces the default; the other two defaults stay.\<close>

theorem NewRequest_headers_witness:
  "\<exists>r. NewRequest exampleCollaborators (retrieverClient\<lparr>clientVersion := ''cli/2''\<rparr>)
          ''GET'' ''u'' None [(''content-type'', ''text/plain'')] = Inr r
     \<and> NumAttempts r = 0
     \<and> Header (httpRequest r) ''Content-Type'' = Some [''text/plain'']
     \<and> Header (httpRequest r) ''Splunk-Client'' = Some [''client-go/1.0.0,cli/2'']
     \<and> Header (httpRequest r) ''Authorization'' = Some [''Bearer fresh'']"
proof -
  let ?c = "retrieverClient\<lparr>clientVersion := ''cli/2''\<rparr>"
  let ?hs = "[(''content-type'', ''text/plain'')]"
  have "\<exists>r. NewRequest exampleCollaborators ?c ''GET'' ''u'' None ?hs = Inr r"
    by (simp add: NewRequest_def http_NewRequest_def exampleCollaborators_def Let_def)
  then obtain r where ok: "NewRequest exampleCollaborators ?c ''GET'' ''u'' None ?hs = Inr r"
    by blast
  have k: "CanonicalMIMEHeaderKey ''content-type'' = ''Content-Type''"
    by (simp add: CanonicalMIMEHeaderKey_def validHeaderFieldByte_def upperByte_def
        lowerByte_def Let_def)
  have cv: "callerValue ?hs ''Content-Type'' = Some ''text/plain''"
    "callerValue ?hs ''Splunk-Client'' = None"
    "callerValue ?hs ''Authorization'' = None"
    by (simp_all add: callerValue_def k)
  from NewRequest_headers [OF ok] have
    n: "NumAttempts r = 0"
    and h: "\<And>K. Header (httpRequest r) K =
          (case callerValue ?hs K of
             Some v \<Rightarrow> Some [v]
           | None \<Rightarrow>
               if K = ''Content-Type'' then Some [''application/json'']
               else if K = ''Splunk-Client''
               then Some [UserAgent exampleCollaborators @ ''/'' @ Version exampleCollaborators
                          @ (if clientVersion ?c \<noteq> [] then '','' @ clientVersion ?c else [])]
               else if K = ''Authorization''
               then (case tokenContext ?c of
                       Some tc \<Rightarrow>
                         if AccessToken tc \<noteq> [] then Some [''Bearer '' @ AccessToken tc] else None
                     | None \<Rightarrow> None)
               else None)"
    by blast+
  have 1: "Header (httpRequest r) ''Content-Type'' = Some [''text/plain'']"
    by (simp add: h cv)
  have 2: "Header (httpRequest r) ''Splunk-Client'' = Some [''client-go/1.0.0,cli/2'']"
    by (simp add: h cv exampleCollaborators_def)
  have 3: "Header (httpRequest r) ''Authorization'' = Some [''Bearer fresh'']"
    by (simp add: h cv retrieverClient_def exampleContext_def)
  from ok n 1 2 3 show ?thesis by blast
qed

subsection \<open>Sending a request\<close>

lemma IncrementErrorsByType_map:
  "NumErrorsByType (IncrementErrorsByType r k) =
     (NumErrorsByType r)(k \<mapsto> (case NumErrorsByType r k of Some n \<Rightarrow> n + 1 | None \<Rightarrow> 1))"
  by (simp add: IncrementErrorsByType_def split: option.splits)

lemma IncrementErrorsByType_other:
  "NumAttempts (IncrementErrorsByType r k) = NumAttempts r"
  "httpRequest (IncrementErrorsByType r k) = httpRequest r"
  by (simp_all add: IncrementErrorsByType_def split: option.splits)

text \<open>An increment under the text of a status code is one more error read back for
  that code.\<close>

lemma GetNumErrorsByResponseCode_Increment:
  "GetNumErrorsByResponseCode (IncrementErrorsByType r (Sprintf_d n)) n
     = GetNumErrorsByResponseCode r n + 1"
  by (simp add: GetNumErrorsByResponseCode_def IncrementErrorsByType_map split: option.splits)

text \<open>
  Claim C2. Let the transport answer the request with \<open>result\<close>. \<open>Do\<close> hands the
  request to the transport once, with the attempt counter raised by one. Without
  response handlers it returns the transport's response and error as they are, and the
  errors by kind are those of before. With handlers, when the transport returned a
  response with a status of 400 or more, the handler chain starts from the request
  whose counter under the decimal text of the status is one more than before (and whose
  other counters are unchanged); after a request error or a lower status the chain
  starts from the request with only the attempt counted.
\<close>

theorem Do_counters:
  assumes "http_Client_Do x (httpClient c) (httpRequest req) (env w) = (result, e)"
    and "req1 = req\<lparr>NumAttempts := NumAttempts req + 1\<rparr>"
    and "w1 = w\<lparr>env := e, trace := trace w @ [CallHttpDo (httpRequest req)]\<rparr>"
  shows "(responseHandlers c = [] \<longrightarrow>
            Do x c req w = (resultPair result, req1, c, w1)
            \<and> NumErrorsByType req1 = NumErrorsByType req)
       \<and> (responseHandlers c \<noteq> [] \<longrightarrow>
            (\<forall>response. result = Responded response \<and> StatusCode response \<ge> 400 \<longrightarrow>
               (\<exists>req2. Do x c req w
                          = handlerLoop x (responseHandlers c) (Some response, None) req2 c w1
                  \<and> NumAttempts req2 = NumAttempts req + 1
                  \<and> NumErrorsByType req2 =
                      (NumErrorsByType req)(Sprintf_d (StatusCode response) \<mapsto>
                         (case NumErrorsByType req (Sprintf_d (StatusCode response)) of
                            Some n \<Rightarrow> n + 1 | None \<Rightarrow> 1))
                  \<and> GetNumErrorsByResponseCode req2 (StatusCode response)
                      = GetNumErrorsByResponseCode req (StatusCode response) + 1))
            \<and> ((\<forall>response. result = Responded response \<longrightarrow> StatusCode response < 400) \<longrightarrow>
               Do x c req w = handlerLoop x (responseHandlers c) (resultPair result) req1 c w1))"
proof (intro conjI impI allI)
  assume "responseHandlers c = []"
  then show "Do x c req w = (resultPair result, req1, c, w1)"
    using assms by (simp add: Do_def Let_def)
  show "NumErrorsByType req1 = NumErrorsByType req"
    using assms(2) by simp
next
  fix response
  assume h: "responseHandlers c \<noteq> []"
    and r: "result = Responded response \<and> StatusCode response \<ge> 400"
  let ?k = "Sprintf_d (StatusCode response)"
  let ?req2 = "IncrementErrorsByType req1 ?k"
  have "Do x c req w = handlerLoop x (responseHandlers c) (Some response, None) ?req2 c w1"
    using assms h r by (simp add: Do_def Let_def)
  moreover have "NumAttempts ?req2 = NumAttempts req + 1"
    using assms(2) by (simp add: IncrementErrorsByType_other)
  moreover have "NumErrorsByType ?req2 =
      (NumErrorsByType req)(?k \<mapsto> (case NumErrorsByType req ?k of Some n \<Rightarrow> n + 1 | None \<Rightarrow> 1))"
    using assms(2) by (simp add: IncrementErrorsByType_map)
  moreover have "GetNumErrorsByResponseCode ?req2 (StatusCode response)
      = GetNumErrorsByResponseCode req (StatusCode response) + 1"
  proof -
    have "GetNumErrorsByResponseCode req1 (StatusCode response)
        = GetNumErrorsByResponseCode req (StatusCode response)"
      using assms(2) by (simp add: GetNumErrorsByResponseCode_def)
    then show ?thesis
      by (simp only: GetNumErrorsByResponseCode_Increment)
  qed
  ultimately show "\<exists>req2. Do x c req w
                          = handlerLoop x (responseHandlers c) (Some response, None) req2 c w1
                  \<and> NumAttempts req2 = NumAttempts req + 1
                  \<and> NumErrorsByType req2 =
                      (NumErrorsByType req)(Sprintf_d (StatusCode response) \<mapsto>
                         (case NumErrorsByType req (Sprintf_d (StatusCode response)) of
                            Some n \<Rightarrow> n + 1 | None \<Rightarrow> 1))
                  \<and> GetNumErrorsByResponseCode req2 (StatusCode response)
                      = GetNumErrorsByResponseCode req (StatusCode response) + 1"
    by blast
next
  assume h: "responseHandlers c \<noteq> []"
    and low: "\<forall>response. result = Responded response \<longrightarrow> StatusCode response < 400"
  show "Do x c req w = handlerLoop x (responseHandlers c) (resultPair result) req1 c w1"
  proof (cases result)
    case (Responded response)
    with low have "\<not> StatusCode response \<ge> 400" by auto
    with Responded assms h show ?thesis by (simp add: Do_def Let_def)
  next
    case (Failed response err)
    with assms h show ?thesis by (simp add: Do_def Let_def)
  qed
qed

text \<open>
  The example network answers 429. Without handlers the answer comes back as it is; with
  a handler that passes it on, the request has one attempt and one error under
  \<^verbatim>\<open>429\<close>.
\<close>

theorem Do_counters_witness:
  "http_Client_Do exampleCollaborators (httpClient retrieverClient) (httpRequest exampleRequest)
      (env exampleWorld) = (Responded \<lparr>StatusCode = 429, ResponseBody = []\<rparr>, 1)
   \<and> Do exampleCollaborators retrieverClient exampleRequest exampleWorld
       = ((Some \<lparr>StatusCode = 429, ResponseBody = []\<rparr>, None),
          exampleRequest\<lparr>NumAttempts := 1\<rparr>, retrieverClient,
          \<lparr>env = 1, trace = [CallHttpDo (httpRequest exampleRequest)]\<rparr>)
   \<and> (\<exists>req2. Do exampleCollaborators (retrieverClient\<lparr>responseHandlers := [CallerHandler 7]\<rparr>)
                exampleRequest exampleWorld
              = ((Some \<lparr>StatusCode = 429, ResponseBody = []\<rparr>, None), req2,
                 retrieverClient\<lparr>responseHandlers := [CallerHandler 7]\<rparr>,
                 \<lparr>env = 1, trace = [CallHttpDo (httpRequest exampleRequest)]\<rparr>)
         \<and> NumAttempts req2 = 1
         \<and> NumErrorsByType req2 ''429'' = Some 1
         \<and> GetNumErrorsByResponseCode req2 429 = 1)"
proof -
  let ?X = exampleCollaborators and ?rsp = "\<lparr>StatusCode = 429, ResponseBody = []\<rparr>"
  let ?c1 = "retrieverClient\<lparr>responseHandlers := [CallerHandler 7]\<rparr>"
  let ?w1 = "exampleWorld\<lparr>env := 1, trace := trace exampleWorld @ [CallHttpDo (httpRequest exampleRequest)]\<rparr>"
  have t0: "http_Client_Do ?X (httpClient retrieverClient) (httpRequest exampleRequest)
      (env exampleWorld) = (Responded ?rsp, 1)"
    by (simp add: exampleCollaborators_def exampleWorld_def)
  have t1: "http_Client_Do ?X (httpClient ?c1) (httpRequest exampleRequest)
      (env exampleWorld) = (Responded ?rsp, 1)"
    by (simp add: exampleCollaborators_def exampleWorld_def)
  have k: "Sprintf_d 429 = ''429''"
    by (simp add: Sprintf_d_def decimal.simps)
  have w: "?w1 = \<lparr>env = 1, trace = [CallHttpDo (httpRequest exampleRequest)]\<rparr>"
    by (simp add: exampleWorld_def)
  have n: "NumAttempts exampleRequest = 0" "NumErrorsByType exampleRequest = Map.empty"
    by (simp_all add: exampleRequest_def)
  have a: "Do ?X retrieverClient exampleRequest exampleWorld
       = ((Some ?rsp, None), exampleRequest\<lparr>NumAttempts := 1\<rparr>, retrieverClient, ?w1)"
    using Do_counters [OF t0 refl refl] by (simp add: retrieverClient_def n)
  have "\<exists>req2. Do ?X ?c1 exampleRequest exampleWorld
          = handlerLoop ?X (responseHandlers ?c1) (Some ?rsp, None) req2 ?c1 ?w1
        \<and> NumAttempts req2 = NumAttempts exampleRequest + 1
        \<and> NumErrorsByType req2 =
            (NumErrorsByType exampleRequest)(Sprintf_d (StatusCode ?rsp) \<mapsto>
               (case NumErrorsByType exampleRequest (Sprintf_d (StatusCode ?rsp)) of
                  Some n \<Rightarrow> n + 1 | None \<Rightarrow> 1))
        \<and> GetNumErrorsByResponseCode req2 (StatusCode ?rsp)
            = GetNumErrorsByResponseCode exampleRequest (StatusCode ?rsp) + 1"
    using Do_counters [OF t1 refl refl] by simp
  then obtain req2 where
    d: "Do ?X ?c1 exampleRequest exampleWorld
          = handlerLoop ?X (responseHandlers ?c1) (Some ?rsp, None) req2 ?c1 ?w1"
    and na: "NumAttempts req2 = 1"
    and ne: "NumErrorsByType req2 ''429'' = Some 1"
    and g: "GetNumErrorsByResponseCode req2 429 = 1"
    by (auto simp: n k GetNumErrorsByResponseCode_def)
  have "handlerLoop ?X (responseHandlers ?c1) (Some ?rsp, None) req2 ?c1 ?w1
      = ((Some ?rsp, None), req2, ?c1, ?w1)"
    by (simp add: exampleCollaborators_def)
  with d have b: "Do ?X ?c1 exampleRequest exampleWorld = ((Some ?rsp, None), req2, ?c1, ?w1)"
    by simp
  from t0 a b na ne g show ?thesis
    unfolding w by blast
qed

subsection \<open>Renewing the token\<close>

lemma le_zdiv_iff:
  fixes s n k :: int
  assumes k: "0 < k"
  shows "(s \<le> n div k) = (s * k \<le> n)"
proof
  assume "s \<le> n div k"
  then have "s * k \<le> (n div k) * k"
    using k by (simp add: mult_right_mono)
  also have "(n div k) * k = n - n mod k"
    by (simp add: algebra_simps minus_mod_eq_mult_div)
  also have "\<dots> \<le> n"
    using k by simp
  finally show "s * k \<le> n" .
next
  assume "s * k \<le> n"
  then have "(s * k) div k \<le> n div k"
    using k by (rule zdiv_mono1)
  then show "s \<le> n div k"
    using k by simp
qed

text \<open>The comparison of whole seconds in \<open>renewToken\<close> is the comparison of the
  instants: the expiry is a whole number of seconds.\<close>

lemma epoch_reached: "(s \<le> n div 1000000000) = (\<not> n < s * (1000000000::int))"
  using le_zdiv_iff [of 1000000000 s n] by auto

lemma renewToken_fresh:
  assumes "tokenContext c = Some tc"
    and "now + tokenExpireWindow c < sint (StartTime tc + ExpiresIn tc) * 1000000000"
  shows "renewToken x c now w = Some (None, c, w)"
  using assms by (simp add: renewToken_def Let_def epoch_reached)

lemma renewToken_stale:
  assumes "tokenContext c = Some tc"
    and "\<not> now + tokenExpireWindow c < sint (StartTime tc + ExpiresIn tc) * 1000000000"
    and "GetTokenContext x (tokenRetriever c) (env w) = (r, e)"
    and "w' = w\<lparr>env := e, trace := trace w
            @ [TokenMuxLock, CallGetTokenContext (tokenRetriever c), TokenMuxUnlock]\<rparr>"
  shows "renewToken x c now w =
           (case r of
              Inl err \<Rightarrow> Some (Some err, c, w')
            | Inr ctx \<Rightarrow> Some (None, c\<lparr>tokenContext := ctx\<rparr>, w'))"
  using assms
  by (simp add: renewToken_def Let_def epoch_reached UpdateTokenContext_def split: sum.splits)

text \<open>\<open>DoRequest\<close> returns exactly for a client that has a token context.\<close>

lemma renewToken_returns: "renewToken x c now w \<noteq> None \<longleftrightarrow> tokenContext c \<noteq> None"
  by (cases "tokenContext c")
     (auto simp: renewToken_def Let_def split: prod.splits sum.splits)

lemma DoRequest_returns:
  "(\<exists>r. DoRequest x c now requestParams w = Some r) \<longleftrightarrow> tokenContext c \<noteq> None"
proof (cases "renewToken x c now w")
  case None
  with renewToken_returns [of x c now w] show ?thesis
    by (simp add: DoRequest_def)
next
  case (Some r)
  with renewToken_returns [of x c now w] have t: "tokenContext c \<noteq> None"
    by simp
  obtain err c' w' where "r = (err, c', w')"
    by (cases r)
  with Some have "DoRequest x c now requestParams w \<noteq> None"
    by (cases err) (simp_all add: DoRequest_def)
  with t show ?thesis by blast
qed

text \<open>
  Claim C1. Take a client with a token snapshot, whose expiry is the issuance epoch
  plus the lifetime (the sum taken in \<^verbatim>\<open>int64\<close>, as the code takes it). When the
  current time plus the expiry window is before the expiry, \<open>DoRequest\<close> does not call
  the retriever: it goes on to send the request with the client and the world as they
  are. Otherwise it calls the retriever once, between taking and releasing the token
  mutex. When the retriever returns a snapshot, the snapshot is installed and the
  request is sent with it. When the retriever returns an error, \<open>DoRequest\<close> returns that
  error at once: the result does not depend on the request parameters, the trace gains
  the three events of the refresh and no call of the HTTP client, and the client keeps
  its snapshot.
\<close>

theorem DoRequest_token_renewal:
  assumes "tokenContext c = Some tc"
    and "GetTokenContext x (tokenRetriever c) (env w) = (r, e)"
    and "w' = w\<lparr>env := e, trace := trace w
            @ [TokenMuxLock, CallGetTokenContext (tokenRetriever c), TokenMuxUnlock]\<rparr>"
  shows "(now + tokenExpireWindow c < sint (StartTime tc + ExpiresIn tc) * 1000000000 \<longrightarrow>
            renewToken x c now w = Some (None, c, w)
            \<and> DoRequest x c now requestParams w = Some (sendRequest x c requestParams w))
       \<and> (\<not> now + tokenExpireWindow c < sint (StartTime tc + ExpiresIn tc) * 1000000000 \<longrightarrow>
            (\<forall>ctx. r = Inr ctx \<longrightarrow>
               DoRequest x c now requestParams w
                 = Some (sendRequest x (c\<lparr>tokenContext := ctx\<rparr>) requestParams w'))
            \<and> (\<forall>err. r = Inl err \<longrightarrow>
               DoRequest x c now requestParams w = Some ((None, Some err), c, w')
               \<and> (\<forall>other. DoRequest x c now other w = DoRequest x c now requestParams w)))"
proof (intro conjI impI allI)
  assume fresh: "now + tokenExpireWindow c < sint (StartTime tc + ExpiresIn tc) * 1000000000"
  show "renewToken x c now w = Some (None, c, w)"
    using assms(1) fresh by (rule renewToken_fresh)
  then show "DoRequest x c now requestParams w = Some (sendRequest x c requestParams w)"
    by (simp add: DoRequest_def)
next
  fix ctx
  assume stale: "\<not> now + tokenExpireWindow c < sint (StartTime tc + ExpiresIn tc) * 1000000000"
    and r: "r = Inr ctx"
  show "DoRequest x c now requestParams w
          = Some (sendRequest x (c\<lparr>tokenContext := ctx\<rparr>) requestParams w')"
    using renewToken_stale [OF assms(1) stale assms(2,3)] r by (simp add: DoRequest_def)
next
  fix err
  assume stale: "\<not> now + tokenExpireWindow c < sint (StartTime tc + ExpiresIn tc) * 1000000000"
    and r: "r = Inl err"
  have d: "DoRequest x c now rp w = Some ((None, Some err), c, w')" for rp
    using renewToken_stale [OF assms(1) stale assms(2,3)] r by (simp add: DoRequest_def)
  show "DoRequest x c now requestParams w = Some ((None, Some err), c, w')"
    by (rule d)
  show "\<And>other. DoRequest x c now other w = DoRequest x c now requestParams w"
    by (simp add: d)
qed

text \<open>
  The example snapshot expires at second 4600 and the window is one minute. At second
  2000 nothing is renewed; at second 5000 retriever 1 renews the snapshot, and the
  failing retriever 0 ends the call with its error.
\<close>

theorem DoRequest_token_renewal_witness:
  "renewToken exampleCollaborators retrieverClient 2000000000000 exampleWorld
      = Some (None, retrieverClient, exampleWorld)
   \<and> DoRequest exampleCollaborators retrieverClient 2000000000000 exampleParams exampleWorld
      = Some (sendRequest exampleCollaborators retrieverClient exampleParams exampleWorld)
   \<and> DoRequest exampleCollaborators retrieverClient 5000000000000 exampleParams exampleWorld
      = Some (sendRequest exampleCollaborators
                (retrieverClient\<lparr>tokenContext := Some exampleContext\<rparr>) exampleParams
                \<lparr>env = 1, trace = [TokenMuxLock, CallGetTokenContext (ExternalRetriever 1),
                                    TokenMuxUnlock]\<rparr>)
   \<and> DoRequest exampleCollaborators (retrieverClient\<lparr>tokenRetriever := ExternalRetriever 0\<rparr>)
        5000000000000 exampleParams exampleWorld
      = Some ((None, Some (errorString ''idp unavailable'')),
              retrieverClient\<lparr>tokenRetriever := ExternalRetriever 0\<rparr>,
              \<lparr>env = 1, trace = [TokenMuxLock, CallGetTokenContext (ExternalRetriever 0),
                                  TokenMuxUnlock]\<rparr>)"
proof -
  let ?X = exampleCollaborators and ?c0 = "retrieverClient\<lparr>tokenRetriever := ExternalRetriever 0\<rparr>"
  have tc: "tokenContext retrieverClient = Some exampleContext"
    "tokenContext ?c0 = Some exampleContext"
    by (simp_all add: retrieverClient_def)
  have g1: "GetTokenContext ?X (tokenRetriever retrieverClient) (env exampleWorld)
      = (Inr (Some exampleContext), 1)"
    by (simp add: GetTokenContext_def retrieverClient_def exampleCollaborators_def exampleWorld_def)
  have g0: "GetTokenContext ?X (tokenRetriever ?c0) (env exampleWorld)
      = (Inl (errorString ''idp unavailable''), 1)"
    by (simp add: GetTokenContext_def exampleCollaborators_def exampleWorld_def)
  have expiry: "sint (StartTime exampleContext + ExpiresIn exampleContext) = 4600"
    by (simp add: exampleContext_def)
  have win: "tokenExpireWindow retrieverClient = 60000000000"
    "tokenExpireWindow ?c0 = 60000000000"
    by (simp_all add: retrieverClient_def)
  have w1: "exampleWorld\<lparr>env := 1, trace := trace exampleWorld
            @ [TokenMuxLock, CallGetTokenContext (tokenRetriever retrieverClient), TokenMuxUnlock]\<rparr>
      = \<lparr>env = 1, trace = [TokenMuxLock, CallGetTokenContext (ExternalRetriever 1), TokenMuxUnlock]\<rparr>"
    by (simp add: exampleWorld_def retrieverClient_def)
  have w0: "exampleWorld\<lparr>env := 1, trace := trace exampleWorld
            @ [TokenMuxLock, CallGetTokenContext (tokenRetriever ?c0), TokenMuxUnlock]\<rparr>
      = \<lparr>env = 1, trace = [TokenMuxLock, CallGetTokenContext (ExternalRetriever 0), TokenMuxUnlock]\<rparr>"
    by (simp add: exampleWorld_def)
  from DoRequest_token_renewal [OF tc(1) g1 refl, of 2000000000000 exampleParams]
  have a: "renewToken ?X retrieverClient 2000000000000 exampleWorld
      = Some (None, retrieverClient, exampleWorld)
    \<and> DoRequest ?X retrieverClient 2000000000000 exampleParams exampleWorld
      = Some (sendRequest ?X retrieverClient exampleParams exampleWorld)"
    by (simp add: expiry win)
  from DoRequest_token_renewal [OF tc(1) g1 w1 [symmetric], of 5000000000000 exampleParams]
  have b: "DoRequest ?X retrieverClient 5000000000000 exampleParams exampleWorld
      = Some (sendRequest ?X (retrieverClient\<lparr>tokenContext := Some exampleContext\<rparr>) exampleParams
                \<lparr>env = 1, trace = [TokenMuxLock, CallGetTokenContext (ExternalRetriever 1),
                                    TokenMuxUnlock]\<rparr>)"
    by (simp add: expiry win)
  from DoRequest_token_renewal [OF tc(2) g0 w0 [symmetric], of 5000000000000 exampleParams]
  have c: "DoRequest ?X ?c0 5000000000000 exampleParams exampleWorld
      = Some ((None, Some (errorString ''idp unavailable'')), ?c0,
              \<lparr>env = 1, trace = [TokenMuxLock, CallGetTokenContext (ExternalRetriever 0),
                                  TokenMuxUnlock]\<rparr>)"
    by (simp add: expiry win)
  from a b c show ?thesis by blast
qed

subsection \<open>Multipart requests\<close>


lemma makeFormRequest_stream_error:
  assumes "randomBoundary x (env w) = (boundary, e)"
    and "Body requestParams = FormDataBody forms"
    and "Stream forms = Reader bs (Some err)"
  shows "makeFormRequest x c requestParams w = (Inl err, w\<lparr>env := e\<rparr>)"
  using assms by (simp add: makeFormRequest_def)





end
